theory Spec2Isabelle
  imports Complex_Main "HOL-Library.Sublist"
begin

section \<open>Monte Carlo revenue forecast: the simulation core\<close>

text \<open>
  A shallow embedding of \<^verbatim>\<open>api/simulation.py\<close> (with the records of
  \<^verbatim>\<open>api/models.py\<close> and the default targets of \<^verbatim>\<open>api/config.py\<close>).

  Numbers. The source computes in IEEE double precision (Python \<^verbatim>\<open>float\<close>,
  \<^verbatim>\<open>np.float64\<close>). Here every such value is a \<^typ>\<open>real\<close> and every operation
  is exact: the development verifies the algorithms of the source, and says nothing about
  the rounding error of a floating-point operation, NaN or infinities. Python integers are
  \<^typ>\<open>int\<close>; lengths and indices are \<^typ>\<open>nat\<close>. One effect of the binary
  representation is kept: how \<^verbatim>\<open>round\<close> and \<^verbatim>\<open>format\<close> resolve a decimal
  tie (see the subsection on rounding).

  Environment. The current date, the clock readings and the process-global random
  generator are read by the source from its environment; the model takes them as
  arguments. Exceptions are values of \<open>error\<close>, and a function that can raise returns
  \<open>error + result\<close>. Running out of memory is not modelled.
\<close>

subsection \<open>Data model (models.py)\<close>

datatype error =
    ValueError
  | ZeroDivisionError
  | OverflowError
  | EmptyArrayError
    \<comment> \<open>the exception numpy raises when an order statistic or \<^verbatim>\<open>np.min\<close> is taken
        of a zero-size array (\<^verbatim>\<open>IndexError\<close> or \<^verbatim>\<open>ValueError\<close>, by numpy version)\<close>

text \<open>A calendar date is its proleptic Gregorian ordinal (\<^verbatim>\<open>date.toordinal()\<close>).\<close>

record Opportunity =
  name :: string
  amount :: real
  probability :: real
  close_date :: int

record SummaryStatistics =
  mean :: real
  median :: real
  std_dev :: real
  p10 :: real
  p25 :: real
  p75 :: real
  p90 :: real
  min_outcome :: real
  max_outcome :: real
  total_pipeline_value :: real
  weighted_pipeline_value :: real

record TargetAnalysis =
  target :: real
  probability :: real
  probability_pct :: string

record HistogramBucket =
  range_low :: real
  range_high :: real
  label :: string
  count :: int
  frequency :: real

record SimulationMetadata =
  num_simulations :: int
  opportunities_included :: int
  opportunities_filtered_out :: int
  compute_time_ms :: real
  timestamp :: real
  time_horizon_days :: "int option"
  api_version :: string

record SimulationResponse =
  summary_statistics :: SummaryStatistics
  target_analysis :: "TargetAnalysis list"
  histogram_buckets :: "HistogramBucket list"
  metadata :: SimulationMetadata

subsection \<open>Dates (datetime.date, datetime.timedelta)\<close>

definition date_max :: int where
  "date_max = 3652059"  \<comment> \<open>\<^verbatim>\<open>date.max.toordinal()\<close>, 9999-12-31; \<^verbatim>\<open>date.min\<close> is 1\<close>

definition timedelta_max_days :: int where
  "timedelta_max_days = 999999999"

text \<open>
  \<^verbatim>\<open>d + timedelta(days=n)\<close>: the timedelta constructor raises OverflowError when
  \<open>n\<close> is beyond 999999999 in magnitude, the addition when the result leaves
  \<^verbatim>\<open>date.min .. date.max\<close>.
\<close>

definition date_plus_days :: "int \<Rightarrow> int \<Rightarrow> error + int" where
  "date_plus_days d n =
     (if \<bar>n\<bar> > timedelta_max_days then Inl OverflowError
      else if 0 < d + n \<and> d + n \<le> date_max then Inr (d + n)
      else Inl OverflowError)"

subsection \<open>Horizon filter\<close>

text \<open>
  \<^verbatim>\<open>filter_opportunities_by_horizon(opportunities, time_horizon_days)\<close>; the first
  argument of the model is \<^verbatim>\<open>date.today()\<close>. (A record field is a constant of
  the theory, so a parameter that shares its name with one is renamed: \<open>horizon_days\<close>
  for \<^verbatim>\<open>time_horizon_days\<close>, \<open>num_sims\<close> for \<^verbatim>\<open>num_simulations\<close>.)
\<close>

definition filter_opportunities_by_horizon ::
  "int \<Rightarrow> Opportunity list \<Rightarrow> int option \<Rightarrow> error + (Opportunity list \<times> int)" where
  "filter_opportunities_by_horizon today opportunities horizon_days =
     (case horizon_days of
        None \<Rightarrow> Inr (opportunities, 0)
      | Some days \<Rightarrow>
          (let cutoff = today in
           case date_plus_days cutoff days of
             Inl e \<Rightarrow> Inl e
           | Inr horizon_date \<Rightarrow>
               (let included = filter (\<lambda>opp. cutoff \<le> close_date opp \<and> close_date opp \<le> horizon_date)
                                 opportunities;
                    excluded_count = int (length opportunities) - int (length included)
                in Inr (included, excluded_count))))"

text \<open>The horizons for which the window end is a date: the addition does not overflow.\<close>

definition horizon_in_calendar :: "int \<Rightarrow> int option \<Rightarrow> bool" where
  "horizon_in_calendar today horizon_days =
     (case horizon_days of
        None \<Rightarrow> True
      | Some days \<Rightarrow> \<bar>days\<bar> \<le> timedelta_max_days \<and> 0 < today + days \<and> today + days \<le> date_max)"

subsection \<open>The random generator (np.random)\<close>

text \<open>
  The process-global generator is a state: the sequence of the values it will return for
  \<^verbatim>\<open>uniform(0, 1)\<close>, and how many of them have been consumed.
  \<^verbatim>\<open>np.random.uniform(0, 1, size=(rows, cols))\<close> consumes \<open>rows * cols\<close> values
  and lays them out row by row; a negative dimension raises ValueError.
\<close>

record rng_state =
  draws :: "nat \<Rightarrow> real"
  consumed :: nat

definition np_random_uniform ::
  "rng_state \<Rightarrow> int \<Rightarrow> nat \<Rightarrow> error + (real list list \<times> rng_state)" where
  "np_random_uniform g rows cols =
     (if rows < 0 then Inl ValueError
      else Inr (map (\<lambda>i. map (\<lambda>j. draws g (consumed g + i * cols + j)) [0..<cols]) [0..<nat rows],
                g\<lparr>consumed := consumed g + nat rows * cols\<rparr>))"

definition np_zeros :: "int \<Rightarrow> error + real list" where
  "np_zeros n = (if n < 0 then Inl ValueError else Inr (replicate (nat n) 0))"

subsection \<open>Trial engine\<close>

text \<open>
  \<^verbatim>\<open>won_matrix = random_draws < probabilities\<close> compares every row with the
  probabilities, position by position; \<^verbatim>\<open>(won_matrix * amounts).sum(axis=1)\<close>
  multiplies every row by the amounts (True is 1, False is 0) and sums each row.
\<close>

definition won_row :: "real list \<Rightarrow> real list \<Rightarrow> bool list" where
  "won_row probabilities random_row = map2 (\<lambda>d p. d < p) random_row probabilities"

definition revenue_row :: "real list \<Rightarrow> bool list \<Rightarrow> real" where
  "revenue_row amounts won = sum_list (map2 (\<lambda>w a. (if w then 1 else 0) * a) won amounts)"

definition run_monte_carlo ::
  "Opportunity list \<Rightarrow> int \<Rightarrow> rng_state \<Rightarrow> error + (real list \<times> rng_state)" where
  "run_monte_carlo opportunities num_sims g =
     (if opportunities = [] then
        (case np_zeros num_sims of Inl e \<Rightarrow> Inl e | Inr zeros \<Rightarrow> Inr (zeros, g))
      else
        (let amounts = map amount opportunities;
             probabilities = map Opportunity.probability opportunities
         in case np_random_uniform g num_sims (length opportunities) of
              Inl e \<Rightarrow> Inl e
            | Inr (random_draws, g') \<Rightarrow>
                (let won_matrix = map (won_row probabilities) random_draws;
                     revenue_per_run = map (revenue_row amounts) won_matrix
                 in Inr (revenue_per_run, g'))))"

subsection \<open>Rounding and number formatting (Python round and format)\<close>

text \<open>
  \<^verbatim>\<open>round(x, ndigits)\<close> and \<^verbatim>\<open>format(x, ".kf")\<close> round the binary double
  \<open>x\<close> to a decimal with the given number of digits. Where the exact value is not half-way
  between two such decimals, the result is the nearer one. Where it is half-way, the
  result follows the double that stands for the value: up when the double lies above the
  exact value, down when it lies below, to the even neighbour when the double is the
  value itself. So \<^verbatim>\<open>round(1/160, 4)\<close> is 0.0063, \<^verbatim>\<open>round(0.01 * 0.5, 2)\<close>
  is 0.01 and \<^verbatim>\<open>round(0.125, 2)\<close> is 0.12. Exact arithmetic does not see the
  double, so the model takes the resolution of ties as a parameter: \<open>ties x\<close> says whether
  a tie at the value \<open>x\<close> is rounded up. It is an argument of every function that rounds
  or formats, and the properties proved hold for every resolution.
  \<^verbatim>\<open>",.0f"\<close> groups the integer digits in threes.
\<close>

type_synonym tie_resolution = "real \<Rightarrow> bool"

definition round_nearest :: "bool \<Rightarrow> real \<Rightarrow> int" where
  "round_nearest tie_up y =
     (let f = \<lfloor>y\<rfloor>; r = y - of_int f
      in if r < 1/2 then f else if 1/2 < r then f + 1 else if tie_up then f + 1 else f)"

definition py_round :: "tie_resolution \<Rightarrow> real \<Rightarrow> nat \<Rightarrow> real" where
  "py_round ties x ndigits =
     of_int (round_nearest (ties x) (x * 10 ^ ndigits)) / 10 ^ ndigits"

text \<open>The two constant resolutions, used in the examples.\<close>

definition ties_up :: tie_resolution where
  "ties_up x = True"

definition ties_down :: tie_resolution where
  "ties_down x = False"

definition digit_char :: "nat \<Rightarrow> char" where
  "digit_char d = char_of (48 + d)"

fun string_of_nat :: "nat \<Rightarrow> string" where
  "string_of_nat n =
     (if n < 10 then [digit_char n] else string_of_nat (n div 10) @ [digit_char (n mod 10)])"

definition zero_pad :: "nat \<Rightarrow> string \<Rightarrow> string" where
  "zero_pad k s = replicate (k - length s) (CHR ''0'') @ s"

fun group_thousands :: "nat \<Rightarrow> string" where
  "group_thousands n =
     (if n < 1000 then string_of_nat n
      else group_thousands (n div 1000) @ '','' @ zero_pad 3 (string_of_nat (n mod 1000)))"

declare string_of_nat.simps [simp del] group_thousands.simps [simp del]

definition format_fixed :: "tie_resolution \<Rightarrow> bool \<Rightarrow> nat \<Rightarrow> real \<Rightarrow> string" where
  "format_fixed ties grouped k x =
     (let m = nat \<bar>round_nearest (ties x) (x * 10 ^ k)\<bar>;
          int_part = m div 10 ^ k;
          frac_part = m mod 10 ^ k
      in (if x < 0 then ''-'' else [])
         @ (if grouped then group_thousands int_part else string_of_nat int_part)
         @ (if k = 0 then [] else ''.'' @ zero_pad k (string_of_nat frac_part)))"

text \<open>The display format of both \<^verbatim>\<open>target_label\<close> and the histogram's \<^verbatim>\<open>fmt\<close>.\<close>

definition fmt :: "tie_resolution \<Rightarrow> real \<Rightarrow> string" where
  "fmt ties v =
     (if v \<ge> 1000000 then ''$'' @ format_fixed ties False 1 (v / 1000000) @ ''M''
      else if v \<ge> 1000 then ''$'' @ format_fixed ties False 0 (v / 1000) @ ''K''
      else ''$'' @ format_fixed ties True 0 v)"

subsection \<open>Distribution statistics (numpy reductions)\<close>

definition np_mean :: "real list \<Rightarrow> real" where
  "np_mean a = sum_list a / real (length a)"

definition np_std :: "real list \<Rightarrow> real" where
  "np_std a = sqrt (np_mean (map (\<lambda>x. (x - np_mean a) * (x - np_mean a)) a))"

text \<open>\<^verbatim>\<open>np.median\<close>: the mean of the one or two middle elements of the sorted array.\<close>

definition np_median :: "real list \<Rightarrow> real" where
  "np_median a =
     (let part = sort a; sz = length a; szh = sz div 2
      in if even sz then np_mean [part ! (szh - 1), part ! szh]
         else np_mean [part ! ((sz - 1) div 2)])"

text \<open>
  \<^verbatim>\<open>np.percentile(a, q)\<close> with the default method (linear): the virtual index
  \<open>(n - 1) * q / 100\<close> in the sorted array, and a linear interpolation between its two
  neighbours. At or beyond the last index both neighbours are the last element, below 0
  both are the first, and the weight of the interpolation does not matter.
\<close>

definition np_percentile :: "real list \<Rightarrow> real \<Rightarrow> real" where
  "np_percentile a q =
     (let arr = sort a; n = length a;
          virtual_index = (real n - 1) * (q / 100);
          (previous_index, next_index) =
             (if virtual_index \<ge> real n - 1 then (n - 1, n - 1)
              else if virtual_index < 0 then (0, 0)
              else (nat \<lfloor>virtual_index\<rfloor>, nat \<lfloor>virtual_index\<rfloor> + 1));
          gamma = virtual_index - of_int \<lfloor>virtual_index\<rfloor>
      in arr ! previous_index + (arr ! next_index - arr ! previous_index) * gamma)"

definition compute_summary_statistics ::
  "tie_resolution \<Rightarrow> real list \<Rightarrow> Opportunity list \<Rightarrow> error + SummaryStatistics" where
  "compute_summary_statistics ties outcomes opportunities =
     (let total_pipeline = sum_list (map amount opportunities);
          weighted_pipeline =
            sum_list (map (\<lambda>opp. amount opp * Opportunity.probability opp) opportunities)
      in if outcomes = [] then Inl EmptyArrayError
         else Inr \<lparr>mean = np_mean outcomes,
                   median = np_median outcomes,
                   std_dev = np_std outcomes,
                   p10 = np_percentile outcomes 10,
                   p25 = np_percentile outcomes 25,
                   p75 = np_percentile outcomes 75,
                   p90 = np_percentile outcomes 90,
                   min_outcome = Min (set outcomes),
                   max_outcome = Max (set outcomes),
                   total_pipeline_value = py_round ties total_pipeline 2,
                   weighted_pipeline_value = py_round ties weighted_pipeline 2\<rparr>)"

subsection \<open>Target analysis\<close>

text \<open>
  The loop over \<^verbatim>\<open>sorted(targets)\<close>, with the list \<^verbatim>\<open>results\<close> it appends to.
  The division raises ZeroDivisionError when \<^verbatim>\<open>num_simulations\<close> is 0. (The
  source also computes a \<^verbatim>\<open>target_label\<close> in each round and never uses it.)
\<close>

fun target_analysis_loop ::
  "tie_resolution \<Rightarrow> real list \<Rightarrow> int \<Rightarrow> real list \<Rightarrow> TargetAnalysis list
     \<Rightarrow> error + TargetAnalysis list" where
  "target_analysis_loop ties outcomes num_sims [] results = Inr results"
| "target_analysis_loop ties outcomes num_sims (t # ts) results =
     (let hit_count = int (length (filter (\<lambda>x. x \<ge> t) outcomes))
      in if num_sims = 0 then Inl ZeroDivisionError
         else
           (let prob = real_of_int hit_count / real_of_int num_sims
            in target_analysis_loop ties outcomes num_sims ts
                 (results @
                    [\<lparr>target = py_round ties t 2,
                      probability = py_round ties prob 4,
                      probability_pct = format_fixed ties False 1 (prob * 100) @ ''%''\<rparr>])))"

definition compute_target_analysis ::
  "tie_resolution \<Rightarrow> real list \<Rightarrow> real list \<Rightarrow> int \<Rightarrow> error + TargetAnalysis list" where
  "compute_target_analysis ties outcomes targets num_sims =
     target_analysis_loop ties outcomes num_sims (sort targets) []"

subsection \<open>Histogram (np.histogram with an integer number of bins)\<close>

text \<open>
  The range is that of the data, \<open>(0, 1)\<close> when there are none, and is widened by one half
  on each side when its two ends coincide. The edges are \<^verbatim>\<open>np.linspace\<close> over the
  range. The bin of a value is computed by scaling, the value at the last edge goes to the
  last bin, and the index is then corrected against the edges themselves: one down when
  the value is below the lower edge of its bin, one up when it has reached the upper edge
  (the last bin apart). Only values of the range are binned, so the scaled index is not
  negative and its conversion to an integer is the floor.
\<close>

definition get_outer_edges :: "real list \<Rightarrow> real \<times> real" where
  "get_outer_edges a =
     (let (first_edge, last_edge) = (if a = [] then (0, 1) else (Min (set a), Max (set a)))
      in if first_edge = last_edge then (first_edge - 1/2, last_edge + 1/2)
         else (first_edge, last_edge))"

definition np_linspace :: "real \<Rightarrow> real \<Rightarrow> nat \<Rightarrow> real list" where
  "np_linspace start stop num =
     map (\<lambda>i. real i * ((stop - start) / real (num - 1)) + start) [0..<num]"

definition bin_index :: "real \<Rightarrow> real \<Rightarrow> nat \<Rightarrow> real list \<Rightarrow> real \<Rightarrow> nat" where
  "bin_index first_edge last_edge n_equal_bins bin_edges x =
     (let f_index = (x - first_edge) / (last_edge - first_edge) * real n_equal_bins;
          i0 = nat \<lfloor>f_index\<rfloor>;
          i1 = (if i0 = n_equal_bins then i0 - 1 else i0);
          i2 = (if x < bin_edges ! i1 then i1 - 1 else i1);
          i3 = (if x \<ge> bin_edges ! (i2 + 1) \<and> i2 \<noteq> n_equal_bins - 1 then i2 + 1 else i2)
      in i3)"

definition np_bincount :: "nat list \<Rightarrow> nat \<Rightarrow> nat list" where
  "np_bincount xs minlength =
     map (\<lambda>k. count_list xs k) [0..<max minlength (fold max (map Suc xs) 0)]"

definition np_histogram :: "real list \<Rightarrow> int \<Rightarrow> error + (nat list \<times> real list)" where
  "np_histogram a bins =
     (if bins < 1 then Inl ValueError
      else
        (let n_equal_bins = nat bins;
             (first_edge, last_edge) = get_outer_edges a;
             bin_edges = np_linspace first_edge last_edge (n_equal_bins + 1);
             keep = filter (\<lambda>x. first_edge \<le> x \<and> x \<le> last_edge) a;
             indices = map (bin_index first_edge last_edge n_equal_bins bin_edges) keep
         in Inr (np_bincount indices n_equal_bins, bin_edges)))"

definition en_dash :: string where
  "en_dash = [CHR 0xE2, CHR 0x80, CHR 0x93]"  \<comment> \<open>U+2013 in UTF-8\<close>

definition histogram_bucket ::
  "tie_resolution \<Rightarrow> nat list \<Rightarrow> real list \<Rightarrow> int \<Rightarrow> nat \<Rightarrow> HistogramBucket" where
  "histogram_bucket ties counts bin_edges num_sims i =
     (let low = bin_edges ! i;
          high = bin_edges ! (i + 1);
          cnt = int (counts ! i)
      in \<lparr>range_low = py_round ties low 2,
          range_high = py_round ties high 2,
          label = fmt ties low @ '' '' @ en_dash @ '' '' @ fmt ties high,
          count = cnt,
          frequency = (if num_sims > 0
                       then py_round ties (real_of_int cnt / real_of_int num_sims) 4
                       else 0)\<rparr>)"

definition compute_histogram ::
  "tie_resolution \<Rightarrow> real list \<Rightarrow> int \<Rightarrow> error + HistogramBucket list" where
  "compute_histogram ties outcomes num_buckets =
     (case np_histogram outcomes num_buckets of
        Inl e \<Rightarrow> Inl e
      | Inr (counts, bin_edges) \<Rightarrow>
          (let num_sims = int (length outcomes)
           in Inr (map (histogram_bucket ties counts bin_edges num_sims) [0..<length counts])))"

subsection \<open>Orchestrator\<close>

text \<open>
  What \<^verbatim>\<open>run_full_simulation\<close> reads from its environment: the date, the two
  readings of \<^verbatim>\<open>time.perf_counter()\<close>, \<^verbatim>\<open>datetime.now(timezone.utc)\<close> and the
  random generator.
\<close>

record environment =
  current_date :: int
  perf_counter_start :: real
  perf_counter_end :: real
  utc_now :: real
  generator :: rng_state

definition default_revenue_targets :: "real list" where
  "default_revenue_targets = [1000000, 5000000, 10000000, 25000000, 50000000]"

definition run_full_simulation ::
  "tie_resolution \<Rightarrow> environment \<Rightarrow> Opportunity list \<Rightarrow> int \<Rightarrow> int option
     \<Rightarrow> real list option \<Rightarrow> error + (SimulationResponse \<times> rng_state)" where
  "run_full_simulation ties env opportunities num_sims horizon_days revenue_targets =
     (let start_time = perf_counter_start env in
      case filter_opportunities_by_horizon (current_date env) opportunities horizon_days of
        Inl e \<Rightarrow> Inl e
      | Inr (filtered_opps, excluded_count) \<Rightarrow>
     (let targets = (case revenue_targets of
                       None \<Rightarrow> default_revenue_targets
                     | Some ts \<Rightarrow> if ts = [] then default_revenue_targets else ts) in
      case run_monte_carlo filtered_opps num_sims (generator env) of
        Inl e \<Rightarrow> Inl e
      | Inr (outcomes, g') \<Rightarrow>
     (case compute_summary_statistics ties outcomes filtered_opps of
        Inl e \<Rightarrow> Inl e
      | Inr summary_stats \<Rightarrow>
     (case compute_target_analysis ties outcomes targets num_sims of
        Inl e \<Rightarrow> Inl e
      | Inr analysis \<Rightarrow>
     (case compute_histogram ties outcomes 12 of
        Inl e \<Rightarrow> Inl e
      | Inr histogram \<Rightarrow>
     (let elapsed_ms = (perf_counter_end env - start_time) * 1000;
          meta = \<lparr>num_simulations = num_sims,
                  opportunities_included = int (length filtered_opps),
                  opportunities_filtered_out = excluded_count,
                  compute_time_ms = py_round ties elapsed_ms 2,
                  timestamp = utc_now env,
                  time_horizon_days = horizon_days,
                  api_version = ''1.0.0''\<rparr>
      in Inr (\<lparr>summary_statistics = summary_stats,
               target_analysis = analysis,
               histogram_buckets = histogram,
               metadata = meta\<rparr>, g')))))))"

subsection \<open>Notions used to state the trial engine's properties\<close>

text \<open>
  The entry \<open>(i, j)\<close> of \<^verbatim>\<open>random_draws\<close>, its row \<open>i\<close>, and the spec's notion of an
  event won in a trial: event \<open>j\<close> is won in trial \<open>i\<close> when its draw is strictly below
  its win probability. \<open>unit_interval_draws\<close> says that the generator returns values of
  \<open>[0, 1)\<close>, as \<^verbatim>\<open>uniform(0, 1)\<close> does.
\<close>

definition draw_at :: "rng_state \<Rightarrow> nat \<Rightarrow> nat \<Rightarrow> nat \<Rightarrow> real" where
  "draw_at g cols i j = draws g (consumed g + i * cols + j)"

definition event_won :: "rng_state \<Rightarrow> Opportunity list \<Rightarrow> nat \<Rightarrow> nat \<Rightarrow> bool" where
  "event_won g opps i j = (draw_at g (length opps) i j < Opportunity.probability (opps ! j))"

definition unit_interval_draws :: "rng_state \<Rightarrow> bool" where
  "unit_interval_draws g = (\<forall>k. 0 \<le> draws g k \<and> draws g k < 1)"

definition random_row :: "rng_state \<Rightarrow> nat \<Rightarrow> nat \<Rightarrow> real list" where
  "random_row g cols i = map (\<lambda>j. draw_at g cols i j) [0..<cols]"

subsection \<open>Notions used to state the properties of rounded values\<close>

text \<open>
  \<open>rounded_to k x r\<close>: \<open>r\<close> is \<open>x\<close> rounded to \<open>k\<close> decimal places, that is a decimal with
  \<open>k\<close> digits after the point at most half a unit of the last digit away from \<open>x\<close> (a tie
  has two such decimals). \<open>one_decimal m\<close> prints \<open>m\<close> tenths with one decimal.
\<close>

definition rounded_to :: "nat \<Rightarrow> real \<Rightarrow> real \<Rightarrow> bool" where
  "rounded_to k x r =
     (r * 10 ^ k = of_int \<lfloor>r * 10 ^ k\<rfloor> \<and> \<bar>r - x\<bar> * (2 * 10 ^ k) \<le> 1)"

definition one_decimal :: "nat \<Rightarrow> string" where
  "one_decimal m = string_of_nat (m div 10) @ ''.'' @ [digit_char (m mod 10)]"

subsection \<open>Notions used to state the target analysis' properties\<close>

text \<open>
  The unrounded hit probability of a threshold, and the record the loop appends for it.
\<close>

definition hit_probability :: "real list \<Rightarrow> int \<Rightarrow> real \<Rightarrow> real" where
  "hit_probability outcomes num_sims t =
     real (length (filter (\<lambda>x. x \<ge> t) outcomes)) / real_of_int num_sims"

definition analysis_record ::
  "tie_resolution \<Rightarrow> real list \<Rightarrow> int \<Rightarrow> real \<Rightarrow> TargetAnalysis" where
  "analysis_record ties outcomes num_sims t =
     \<lparr>target = py_round ties t 2,
      probability = py_round ties (hit_probability outcomes num_sims t) 4,
      probability_pct =
        format_fixed ties False 1 (hit_probability outcomes num_sims t * 100) @ ''%''\<rparr>"

subsection \<open>Notions used to state the statistics' properties\<close>

text \<open>
  The linear interpolation of a sorted array at a virtual index: what
  \<^verbatim>\<open>np.percentile\<close> returns, as a function of the index.
\<close>

definition lerp_sorted :: "real list \<Rightarrow> real \<Rightarrow> real" where
  "lerp_sorted s v =
     (if v \<ge> real (length s) - 1 then s ! (length s - 1)
      else s ! nat \<lfloor>v\<rfloor> + (s ! (nat \<lfloor>v\<rfloor> + 1) - s ! nat \<lfloor>v\<rfloor>) * (v - of_int \<lfloor>v\<rfloor>))"

subsection \<open>Notions used to state the histogram's properties\<close>

text \<open>
  Edge \<open>k\<close> of \<open>nb\<close> equal-width buckets over a range, and the values that fall in bucket
  \<open>k\<close>: from its lower edge (included) to its upper edge (excluded), the upper edge of
  the last bucket included.
\<close>

definition bucket_edge :: "real \<Rightarrow> real \<Rightarrow> nat \<Rightarrow> nat \<Rightarrow> real" where
  "bucket_edge first_edge last_edge nb k =
     first_edge + real k * ((last_edge - first_edge) / real nb)"

definition in_bucket :: "real \<Rightarrow> real \<Rightarrow> nat \<Rightarrow> nat \<Rightarrow> real \<Rightarrow> bool" where
  "in_bucket first_edge last_edge nb k x =
     (bucket_edge first_edge last_edge nb k \<le> x \<and>
      (if k = nb - 1 then x \<le> bucket_edge first_edge last_edge nb nb
       else x < bucket_edge first_edge last_edge nb (k + 1)))"

subsection \<open>Notions used to state the orchestrator's properties\<close>

text \<open>
  The targets the orchestrator analyses (the caller's when there are any, the configured
  defaults otherwise), and the metadata record it builds.
\<close>

definition effective_targets :: "real list option \<Rightarrow> real list" where
  "effective_targets revenue_targets =
     (case revenue_targets of
        None \<Rightarrow> default_revenue_targets
      | Some ts \<Rightarrow> if ts = [] then default_revenue_targets else ts)"

definition run_metadata ::
  "tie_resolution \<Rightarrow> environment \<Rightarrow> int \<Rightarrow> int option \<Rightarrow> int \<Rightarrow> int \<Rightarrow> SimulationMetadata" where
  "run_metadata ties env num_sims horizon_days n_included n_excluded =
     \<lparr>num_simulations = num_sims,
      opportunities_included = n_included,
      opportunities_filtered_out = n_excluded,
      compute_time_ms = py_round ties ((perf_counter_end env - perf_counter_start env) * 1000) 2,
      timestamp = utc_now env,
      time_horizon_days = horizon_days,
      api_version = ''1.0.0''\<rparr>"

section \<open>Horizon filter: properties\<close>

lemma date_plus_days_ok:
  "horizon_in_calendar today (Some days) \<Longrightarrow> date_plus_days today days = Inr (today + days)"
  by (simp add: horizon_in_calendar_def date_plus_days_def)

lemma filter_by_horizon_Some:
  assumes "horizon_in_calendar today (Some days)"
  shows "filter_opportunities_by_horizon today opps (Some days) =
           Inr (filter (\<lambda>opp. today \<le> close_date opp \<and> close_date opp \<le> today + days) opps,
                int (length opps)
                  - int (length (filter (\<lambda>opp. today \<le> close_date opp \<and> close_date opp \<le> today + days) opps)))"
  using date_plus_days_ok [OF assms]
  by (simp add: filter_opportunities_by_horizon_def Let_def)

lemma filter_by_horizon_None:
  "filter_opportunities_by_horizon today opps None = Inr (opps, 0)"
  by (simp add: filter_opportunities_by_horizon_def)

text \<open>
  Claim C4. With a horizon present (and a window end that is a calendar date), the
  filter returns a result, and an event of the input is included exactly when
  \<open>today \<le> closeDate \<le> today + horizonDays\<close>, both bounds inclusive; in particular an
  event dated before today is never included. With no horizon the whole list is returned
  unchanged and the excluded count is 0.
\<close>

theorem filter_by_horizon_window:
  "filter_opportunities_by_horizon today opps None = Inr (opps, 0) \<and>
   (horizon_in_calendar today (Some days) \<longrightarrow>
      (\<exists>included excluded_count.
          filter_opportunities_by_horizon today opps (Some days) = Inr (included, excluded_count) \<and>
          set included \<subseteq> set opps \<and>
          (\<forall>i < length opps.
              opps ! i \<in> set included \<longleftrightarrow>
                today \<le> close_date (opps ! i) \<and> close_date (opps ! i) \<le> today + days) \<and>
          (\<forall>opp \<in> set opps. close_date opp < today \<longrightarrow> opp \<notin> set included)))"
proof (intro conjI impI)
  show "filter_opportunities_by_horizon today opps None = Inr (opps, 0)"
    by (rule filter_by_horizon_None)
next
  assume ok: "horizon_in_calendar today (Some days)"
  let ?P = "\<lambda>opp. today \<le> close_date opp \<and> close_date opp \<le> today + days"
  have "filter_opportunities_by_horizon today opps (Some days) =
          Inr (filter ?P opps, int (length opps) - int (length (filter ?P opps)))"
    by (rule filter_by_horizon_Some [OF ok])
  moreover have "set (filter ?P opps) \<subseteq> set opps"
    by auto
  moreover have "\<forall>i < length opps. opps ! i \<in> set (filter ?P opps) \<longleftrightarrow> ?P (opps ! i)"
    by auto
  moreover have "\<forall>opp \<in> set opps. close_date opp < today \<longrightarrow> opp \<notin> set (filter ?P opps)"
    by auto
  ultimately show "\<exists>included excluded_count.
          filter_opportunities_by_horizon today opps (Some days) = Inr (included, excluded_count) \<and>
          set included \<subseteq> set opps \<and>
          (\<forall>i < length opps.
              opps ! i \<in> set included \<longleftrightarrow>
                today \<le> close_date (opps ! i) \<and> close_date (opps ! i) \<le> today + days) \<and>
          (\<forall>opp \<in> set opps. close_date opp < today \<longrightarrow> opp \<notin> set included)"
    by blast
qed

theorem filter_by_horizon_window_witness:
  "horizon_in_calendar 739924 (Some 45) \<and>
   filter_opportunities_by_horizon 739924
     [\<lparr>name = ''Deal A'', amount = 1000000, probability = 9/10, close_date = 739954\<rparr>,
      \<lparr>name = ''Deal B'', amount = 500000, probability = 1/2, close_date = 739984\<rparr>,
      \<lparr>name = ''Past'', amount = 100000, probability = 1/2, close_date = 739914\<rparr>]
     (Some 45) =
   Inr ([\<lparr>name = ''Deal A'', amount = 1000000, probability = 9/10, close_date = 739954\<rparr>], 2)"
  using filter_by_horizon_window
    [of 739924
        "[\<lparr>name = ''Deal A'', amount = 1000000, probability = 9/10, close_date = 739954\<rparr>,
          \<lparr>name = ''Deal B'', amount = 500000, probability = 1/2, close_date = 739984\<rparr>,
          \<lparr>name = ''Past'', amount = 100000, probability = 1/2, close_date = 739914\<rparr>]" 45]
  by (simp add: horizon_in_calendar_def timedelta_max_days_def date_max_def
        filter_opportunities_by_horizon_def date_plus_days_def)

section \<open>Trial engine: properties\<close>

lemma run_monte_carlo_empty:
  "0 \<le> n \<Longrightarrow> run_monte_carlo [] n g = Inr (replicate (nat n) 0, g)"
  by (simp add: run_monte_carlo_def np_zeros_def)

lemma run_monte_carlo_negative:
  "n < 0 \<Longrightarrow> run_monte_carlo opps n g = Inl ValueError"
  by (simp add: run_monte_carlo_def np_zeros_def np_random_uniform_def Let_def)

lemma run_monte_carlo_nonempty:
  assumes "opps \<noteq> []" "0 \<le> n"
  shows "run_monte_carlo opps n g =
     Inr (map (\<lambda>i. revenue_row (map amount opps)
                  (won_row (map Opportunity.probability opps)
                     (map (\<lambda>j. draws g (consumed g + i * length opps + j)) [0..<length opps])))
            [0..<nat n],
          g\<lparr>consumed := consumed g + nat n * length opps\<rparr>)"
  using assms by (simp add: run_monte_carlo_def np_random_uniform_def Let_def comp_def)

lemma revenue_row_bounds:
  "\<forall>a \<in> set amounts. 0 \<le> a \<Longrightarrow>
     0 \<le> revenue_row amounts won \<and> revenue_row amounts won \<le> sum_list amounts"
proof (induction amounts arbitrary: won)
  case Nil
  then show ?case by (simp add: revenue_row_def)
next
  case (Cons a amounts)
  show ?case
  proof (cases won)
    case Nil
    then show ?thesis using Cons.prems by (simp add: revenue_row_def sum_list_nonneg)
  next
    case (Cons w ws)
    have "0 \<le> revenue_row amounts ws \<and> revenue_row amounts ws \<le> sum_list amounts"
      using Cons.IH Cons.prems by simp
    then show ?thesis using Cons Cons.prems by (simp add: revenue_row_def)
  qed
qed

lemma revenue_row_sum:
  assumes "length probs = m" "length amounts = m" "length row = m"
  shows "revenue_row amounts (won_row probs row) =
           (\<Sum>j<m. if row ! j < probs ! j then amounts ! j else 0)"
proof -
  have "revenue_row amounts (won_row probs row) =
          (\<Sum>j = 0..<m. (map2 (\<lambda>w a. (if w then 1 else 0) * a) (won_row probs row) amounts) ! j)"
    unfolding revenue_row_def using assms by (simp add: sum_list_sum_nth won_row_def)
  also have "\<dots> = (\<Sum>j = 0..<m. if row ! j < probs ! j then amounts ! j else 0)"
    using assms by (intro sum.cong) (auto simp: won_row_def)
  finally show ?thesis by (simp add: lessThan_atLeast0)
qed

lemma run_monte_carlo_total:
  assumes "0 \<le> n"
  shows "\<exists>outs g'. run_monte_carlo opps n g = Inr (outs, g') \<and> length outs = nat n \<and>
           consumed g' = consumed g + nat n * length opps"
proof (cases "opps = []")
  case True
  then show ?thesis using assms by (simp add: run_monte_carlo_empty)
next
  case False
  then show ?thesis using assms by (simp add: run_monte_carlo_nonempty)
qed

lemma run_monte_carlo_nth:
  assumes "0 \<le> n" "run_monte_carlo opps n g = Inr (outs, g')" "i < nat n"
  shows "outs ! i = (\<Sum>j<length opps. if event_won g opps i j then amount (opps ! j) else 0)"
proof (cases "opps = []")
  case True
  then show ?thesis using assms by (auto simp: run_monte_carlo_empty)
next
  case False
  let ?m = "length opps"
  let ?row = "map (\<lambda>j. draws g (consumed g + i * ?m + j)) [0..<?m]"
  have "outs ! i = revenue_row (map amount opps) (won_row (map Opportunity.probability opps) ?row)"
    using assms False by (auto simp: run_monte_carlo_nonempty)
  also have "\<dots> = (\<Sum>j<?m. if ?row ! j < map Opportunity.probability opps ! j
                            then map amount opps ! j else 0)"
    by (rule revenue_row_sum) simp_all
  also have "\<dots> = (\<Sum>j<?m. if event_won g opps i j then amount (opps ! j) else 0)"
    by (intro sum.cong) (auto simp: event_won_def draw_at_def)
  finally show ?thesis .
qed

text \<open>
  Claim C1. For every event list and every trial count \<open>n \<ge> 0\<close>, the trial engine
  returns a distribution of length \<open>n\<close>, having consumed \<open>n * len(events)\<close> draws of the
  generator; when the event list is empty the distribution is \<open>n\<close> zeros and the
  generator is left as it was (no draw is made).
\<close>

theorem run_monte_carlo_length:
  "0 \<le> n \<Longrightarrow>
     \<exists>outs g'. run_monte_carlo opps n g = Inr (outs, g') \<and>
        length outs = nat n \<and>
        consumed g' = consumed g + nat n * length opps \<and>
        (opps = [] \<longrightarrow> outs = replicate (nat n) 0 \<and> g' = g)"
proof -
  assume n: "0 \<le> n"
  show ?thesis
  proof (cases "opps = []")
    case True
    then show ?thesis using n by (simp add: run_monte_carlo_empty)
  next
    case False
    then show ?thesis using n by (simp add: run_monte_carlo_nonempty)
  qed
qed

theorem run_monte_carlo_length_witness:
  "(0::int) \<le> 3 \<and>
   run_monte_carlo [] 3 \<lparr>draws = (\<lambda>k. 1/2), consumed = 7\<rparr> =
     Inr ([0, 0, 0], \<lparr>draws = (\<lambda>k. 1/2), consumed = 7\<rparr>)"
  using run_monte_carlo_length [of 3 "[]" "\<lparr>draws = (\<lambda>k. 1/2), consumed = 7\<rparr>"]
  by (simp add: numeral_3_eq_3)

text \<open>
  Claim C2. For every event list with non-negative amounts (in particular amounts
  \<open>> 0\<close>, whatever the win probabilities), every trial count \<open>n \<ge> 0\<close> and every
  generator state, the engine returns a distribution all of whose values lie in
  \<open>[0, totalPipelineValue]\<close>, the sum of the amounts of the events.
\<close>

theorem outcomes_within_pipeline:
  assumes "0 \<le> n" and "\<forall>opp \<in> set opps. 0 \<le> amount opp"
  shows "\<exists>outs g'. run_monte_carlo opps n g = Inr (outs, g') \<and>
           (\<forall>x \<in> set outs. 0 \<le> x \<and> x \<le> sum_list (map amount opps))"
proof (cases "opps = []")
  case True
  then show ?thesis using assms by (simp add: run_monte_carlo_empty)
next
  case False
  have "\<forall>a \<in> set (map amount opps). 0 \<le> a"
    using assms(2) by simp
  then have "\<And>won. 0 \<le> revenue_row (map amount opps) won \<and>
                   revenue_row (map amount opps) won \<le> sum_list (map amount opps)"
    by (rule revenue_row_bounds)
  then show ?thesis
    using assms(1) False by (auto simp: run_monte_carlo_nonempty)
qed

theorem outcomes_within_pipeline_witness:
  "(0::int) \<le> 2 \<and>
   run_monte_carlo
     [\<lparr>name = ''A'', amount = 100, probability = 1/2, close_date = 1\<rparr>,
      \<lparr>name = ''B'', amount = 50, probability = 1/2, close_date = 1\<rparr>] 2
     \<lparr>draws = (\<lambda>k. if k = 0 \<or> k = 3 then 3/4 else 1/4), consumed = 0\<rparr> =
     Inr ([50, 100], \<lparr>draws = (\<lambda>k. if k = 0 \<or> k = 3 then 3/4 else 1/4), consumed = 4\<rparr>)"
  using outcomes_within_pipeline
    [of 2 "[\<lparr>name = ''A'', amount = 100, probability = 1/2, close_date = 1\<rparr>,
            \<lparr>name = ''B'', amount = 50, probability = 1/2, close_date = 1\<rparr>]"
        "\<lparr>draws = (\<lambda>k. if k = 0 \<or> k = 3 then 3/4 else 1/4), consumed = 0\<rparr>"]
  by (simp add: run_monte_carlo_def np_random_uniform_def won_row_def revenue_row_def
        numeral_2_eq_2 upt_rec)

lemma won_row_nth:
  assumes "j < length opps"
  shows "won_row (map Opportunity.probability opps) (random_row g (length opps) i) ! j
           = event_won g opps i j"
  using assms by (simp add: won_row_def random_row_def event_won_def)

lemma won_certain:
  assumes "unit_interval_draws g" "Opportunity.probability (opps ! j) = 1"
  shows "event_won g opps i j"
  using assms by (simp add: event_won_def draw_at_def unit_interval_draws_def)

lemma won_impossible:
  assumes "unit_interval_draws g" "Opportunity.probability (opps ! j) = 0"
  shows "\<not> event_won g opps i j"
  using assms by (simp add: event_won_def draw_at_def unit_interval_draws_def not_less)

lemma sum_split_at:
  fixes f :: "nat \<Rightarrow> real"
  assumes "j < m"
  shows "(\<Sum>k<m. f k) = f j + (\<Sum>k \<in> {..<m} - {j}. f k)"
  using assms by (simp add: sum.remove)

text \<open>
  Claim C3. The entry of the source's won matrix for trial \<open>i\<close> and event \<open>j\<close> is true
  exactly when the draw is strictly below the event's win probability, and the outcome of
  trial \<open>i\<close> is the sum of the amounts of the events won in it. With draws from
  \<open>[0, 1)\<close>, an event of probability 1 is won in every trial and its full amount is a
  summand of every outcome; an event of probability 0 is won in none and the outcome is
  the sum over the other events.
\<close>

theorem won_iff_draw_below_probability:
  assumes "0 \<le> n" and "unit_interval_draws g"
  shows "\<exists>outs g'. run_monte_carlo opps n g = Inr (outs, g') \<and> length outs = nat n \<and>
     (\<forall>i < nat n.
        outs ! i = (\<Sum>j<length opps. if event_won g opps i j then amount (opps ! j) else 0) \<and>
        (\<forall>j < length opps.
           (won_row (map Opportunity.probability opps) (random_row g (length opps) i) ! j
              \<longleftrightarrow> draw_at g (length opps) i j < Opportunity.probability (opps ! j)) \<and>
           (Opportunity.probability (opps ! j) = 1 \<longrightarrow>
              event_won g opps i j \<and>
              outs ! i = amount (opps ! j)
                 + (\<Sum>k \<in> {..<length opps} - {j}. if event_won g opps i k then amount (opps ! k) else 0)) \<and>
           (Opportunity.probability (opps ! j) = 0 \<longrightarrow>
              \<not> event_won g opps i j \<and>
              outs ! i
                 = (\<Sum>k \<in> {..<length opps} - {j}. if event_won g opps i k then amount (opps ! k) else 0))))"
proof -
  obtain outs g' where run: "run_monte_carlo opps n g = Inr (outs, g')"
    and len: "length outs = nat n"
    using run_monte_carlo_total [OF assms(1)] by blast
  have "outs ! i = (\<Sum>j<length opps. if event_won g opps i j then amount (opps ! j) else 0) \<and>
        (\<forall>j < length opps.
           (won_row (map Opportunity.probability opps) (random_row g (length opps) i) ! j
              \<longleftrightarrow> draw_at g (length opps) i j < Opportunity.probability (opps ! j)) \<and>
           (Opportunity.probability (opps ! j) = 1 \<longrightarrow>
              event_won g opps i j \<and>
              outs ! i = amount (opps ! j)
                 + (\<Sum>k \<in> {..<length opps} - {j}. if event_won g opps i k then amount (opps ! k) else 0)) \<and>
           (Opportunity.probability (opps ! j) = 0 \<longrightarrow>
              \<not> event_won g opps i j \<and>
              outs ! i
                 = (\<Sum>k \<in> {..<length opps} - {j}. if event_won g opps i k then amount (opps ! k) else 0)))"
    if i: "i < nat n" for i
  proof (intro conjI allI impI)
    let ?f = "\<lambda>k. if event_won g opps i k then amount (opps ! k) else 0"
    show total: "outs ! i = (\<Sum>j<length opps. ?f j)"
      by (rule run_monte_carlo_nth [OF assms(1) run i])
    fix j assume j: "j < length opps"
    show "won_row (map Opportunity.probability opps) (random_row g (length opps) i) ! j
              \<longleftrightarrow> draw_at g (length opps) i j < Opportunity.probability (opps ! j)"
      using won_row_nth [OF j] by (simp add: event_won_def)
    have split: "outs ! i = ?f j + (\<Sum>k \<in> {..<length opps} - {j}. ?f k)"
      using total sum_split_at [OF j, of ?f] by simp
    {
      assume p: "Opportunity.probability (opps ! j) = 1"
      show w: "event_won g opps i j" by (rule won_certain [OF assms(2) p])
      show "outs ! i = amount (opps ! j) + (\<Sum>k \<in> {..<length opps} - {j}. ?f k)"
        using split w by simp
    }
    {
      assume p: "Opportunity.probability (opps ! j) = 0"
      show w: "\<not> event_won g opps i j" by (rule won_impossible [OF assms(2) p])
      show "outs ! i = (\<Sum>k \<in> {..<length opps} - {j}. ?f k)"
        using split w by simp
    }
  qed
  with run len show ?thesis by blast
qed

theorem won_iff_draw_below_probability_witness:
  "(0::int) \<le> 2 \<and> unit_interval_draws \<lparr>draws = (\<lambda>k. 1/2), consumed = 0\<rparr> \<and>
   run_monte_carlo
     [\<lparr>name = ''Certain'', amount = 1000000, probability = 1, close_date = 1\<rparr>,
      \<lparr>name = ''Impossible'', amount = 500, probability = 0, close_date = 1\<rparr>] 2
     \<lparr>draws = (\<lambda>k. 1/2), consumed = 0\<rparr> =
     Inr ([1000000, 1000000], \<lparr>draws = (\<lambda>k. 1/2), consumed = 4\<rparr>)"
  using won_iff_draw_below_probability
    [of 2 "\<lparr>draws = (\<lambda>k. 1/2), consumed = 0\<rparr>"
        "[\<lparr>name = ''Certain'', amount = 1000000, probability = 1, close_date = 1\<rparr>,
          \<lparr>name = ''Impossible'', amount = 500, probability = 0, close_date = 1\<rparr>]"]
  by (simp add: run_monte_carlo_def np_random_uniform_def won_row_def revenue_row_def
        unit_interval_draws_def numeral_2_eq_2 upt_rec)

section \<open>Rounding: properties\<close>

lemma round_nearest_range:
  "round_nearest b y = \<lfloor>y\<rfloor> \<or> round_nearest b y = \<lfloor>y\<rfloor> + 1"
  by (simp add: round_nearest_def Let_def)

lemma round_nearest_close: "\<bar>of_int (round_nearest b y) - y\<bar> \<le> 1 / 2"
proof -
  have "of_int \<lfloor>y\<rfloor> \<le> y" "y < of_int \<lfloor>y\<rfloor> + 1" by linarith+
  then show ?thesis by (auto simp: round_nearest_def Let_def)
qed

lemma round_nearest_mono:
  assumes "x < y"
  shows "round_nearest a x \<le> round_nearest b y"
proof (cases "\<lfloor>x\<rfloor> = \<lfloor>y\<rfloor>")
  case True
  then show ?thesis using assms by (auto simp: round_nearest_def Let_def)
next
  case False
  have "\<lfloor>x\<rfloor> \<le> \<lfloor>y\<rfloor>" using assms by (intro floor_mono) simp
  then have "\<lfloor>x\<rfloor> < \<lfloor>y\<rfloor>" using False by linarith
  then show ?thesis
    using round_nearest_range [of a x] round_nearest_range [of b y] by linarith
qed

lemma py_round_mono:
  assumes "x \<le> y"
  shows "py_round ties x k \<le> py_round ties y k"
proof (cases "x = y")
  case True
  then show ?thesis by simp
next
  case False
  then have "x * 10 ^ k < y * 10 ^ k" using assms by simp
  then have "round_nearest (ties x) (x * 10 ^ k) \<le> round_nearest (ties y) (y * 10 ^ k)"
    by (rule round_nearest_mono)
  then show ?thesis by (simp add: py_round_def divide_right_mono)
qed

lemma py_round_zero: "py_round ties 0 k = 0"
  by (simp add: py_round_def round_nearest_def)

text \<open>
  Whatever the resolution of ties, the result of \<open>py_round\<close> is a decimal with the given
  number of digits at most half a unit of the last digit away from the value; and when the
  value is not a tie, it is the only one.
\<close>

lemma py_round_rounded_to: "rounded_to k x (py_round ties x k)"
proof -
  let ?m = "round_nearest (ties x) (x * 10 ^ k)"
  have p: "(0::real) < 10 ^ k" by simp
  have scaled: "py_round ties x k * 10 ^ k = of_int ?m"
    by (simp add: py_round_def)
  have "\<bar>of_int ?m - x * 10 ^ k\<bar> \<le> 1 / 2" by (rule round_nearest_close)
  moreover have "\<bar>py_round ties x k - x\<bar> * 10 ^ k = \<bar>of_int ?m - x * 10 ^ k\<bar>"
  proof -
    have "\<bar>py_round ties x k - x\<bar> * 10 ^ k = \<bar>(py_round ties x k - x) * 10 ^ k\<bar>"
      by (simp add: abs_mult)
    also have "(py_round ties x k - x) * 10 ^ k = of_int ?m - x * 10 ^ k"
      using scaled by (simp add: left_diff_distrib)
    finally show ?thesis .
  qed
  ultimately have "\<bar>py_round ties x k - x\<bar> * 10 ^ k \<le> 1 / 2" by simp
  then have "\<bar>py_round ties x k - x\<bar> * (2 * 10 ^ k) \<le> 1" by simp
  then show ?thesis by (simp add: rounded_to_def scaled)
qed

lemma rounded_to_unique:
  assumes "rounded_to k x r" and "x * 10 ^ k - of_int \<lfloor>x * 10 ^ k\<rfloor> \<noteq> 1 / 2"
  shows "r = py_round ties x k"
proof -
  let ?y = "x * 10 ^ k"
  let ?m = "round_nearest (ties x) ?y"
  define n where "n = \<lfloor>r * 10 ^ k\<rfloor>"
  have rn: "r * 10 ^ k = of_int n" using assms(1) by (simp add: rounded_to_def n_def)
  have "\<bar>r - x\<bar> * (2 * 10 ^ k) \<le> 1" using assms(1) by (simp add: rounded_to_def)
  then have "\<bar>r - x\<bar> * 10 ^ k \<le> 1 / 2" by simp
  moreover have "\<bar>r - x\<bar> * 10 ^ k = \<bar>of_int n - ?y\<bar>"
  proof -
    have "\<bar>r - x\<bar> * 10 ^ k = \<bar>(r - x) * 10 ^ k\<bar>" by (simp add: abs_mult)
    also have "(r - x) * 10 ^ k = of_int n - ?y" using rn by (simp add: left_diff_distrib)
    finally show ?thesis .
  qed
  ultimately have dn: "\<bar>of_int n - ?y\<bar> \<le> 1 / 2" by simp
  have fl: "of_int \<lfloor>?y\<rfloor> \<le> ?y" "?y < of_int \<lfloor>?y\<rfloor> + 1" by linarith+
  have "n = \<lfloor>?y\<rfloor> \<or> n = \<lfloor>?y\<rfloor> + 1"
  proof -
    have "of_int n \<le> ?y + 1 / 2" "?y - 1 / 2 \<le> of_int n" using dn by linarith+
    then have "(of_int n :: real) < of_int \<lfloor>?y\<rfloor> + 2" "of_int \<lfloor>?y\<rfloor> - 1 < (of_int n :: real)"
      using fl by linarith+
    then have "(of_int n :: real) < of_int (\<lfloor>?y\<rfloor> + 2)" "(of_int (\<lfloor>?y\<rfloor> - 1) :: real) < of_int n"
      by simp_all
    then have "n < \<lfloor>?y\<rfloor> + 2" "\<lfloor>?y\<rfloor> - 1 < n" by (simp_all only: of_int_less_iff)
    then show ?thesis by linarith
  qed
  then have "n = ?m"
  proof
    assume n: "n = \<lfloor>?y\<rfloor>"
    then have "?y - of_int \<lfloor>?y\<rfloor> \<le> 1 / 2" using dn by linarith
    then have "?y - of_int \<lfloor>?y\<rfloor> < 1 / 2" using assms(2) by linarith
    then show ?thesis using n by (simp add: round_nearest_def Let_def)
  next
    assume n: "n = \<lfloor>?y\<rfloor> + 1"
    then have "1 / 2 \<le> ?y - of_int \<lfloor>?y\<rfloor>" using dn by simp
    then have "1 / 2 < ?y - of_int \<lfloor>?y\<rfloor>" using assms(2) by linarith
    then show ?thesis using n by (simp add: round_nearest_def Let_def)
  qed
  then have "r * 10 ^ k = of_int ?m" using rn by simp
  then have "r = of_int ?m / 10 ^ k" by (simp add: field_simps)
  then show ?thesis by (simp add: py_round_def)
qed

text \<open>
  The format with one decimal of a non-negative value: the integer digits, a point and
  one digit, of a whole number of tenths at most half a tenth away from the value.
\<close>

lemma string_of_digit: "d < 10 \<Longrightarrow> string_of_nat d = [digit_char d]"
  by (simp add: string_of_nat.simps)

lemma format_fixed_one_decimal:
  assumes "0 \<le> x"
  shows "\<exists>m::nat. \<bar>real m - x * 10\<bar> \<le> 1 / 2 \<and>
           format_fixed ties False 1 x = one_decimal m"
proof -
  let ?r = "round_nearest (ties x) (x * 10)"
  have "0 \<le> \<lfloor>x * 10\<rfloor>" using assms by simp
  then have nonneg: "0 \<le> ?r" using round_nearest_range [of "ties x" "x * 10"] by linarith
  have close: "\<bar>of_int ?r - x * 10\<bar> \<le> 1 / 2" by (rule round_nearest_close)
  have "real (nat ?r) = of_int ?r" using nonneg by simp
  then have c: "\<bar>real (nat ?r) - x * 10\<bar> \<le> 1 / 2" using close by simp
  have "string_of_nat (nat ?r mod 10) = [digit_char (nat ?r mod 10)]"
    by (rule string_of_digit) simp
  then have "format_fixed ties False 1 x = one_decimal (nat ?r)"
    using assms nonneg by (simp add: format_fixed_def one_decimal_def zero_pad_def Let_def)
  then show ?thesis using c by blast
qed

section \<open>Target analysis: properties\<close>

lemma target_analysis_loop_eq:
  assumes "num_sims \<noteq> 0"
  shows "target_analysis_loop ties outcomes num_sims ts results =
           Inr (results @ map (analysis_record ties outcomes num_sims) ts)"
  using assms
  by (induction ts arbitrary: results)
     (simp_all add: Let_def analysis_record_def hit_probability_def)

lemma compute_target_analysis_eq:
  assumes "num_sims \<noteq> 0"
  shows "compute_target_analysis ties outcomes targets num_sims =
           Inr (map (analysis_record ties outcomes num_sims) (sort targets))"
  using target_analysis_loop_eq [OF assms] by (simp add: compute_target_analysis_def)

lemma compute_target_analysis_zero:
  "compute_target_analysis ties outcomes targets 0 =
     (if targets = [] then Inr [] else Inl ZeroDivisionError)"
proof (cases "sort targets")
  case Nil
  then have "targets = []" using length_sort [of "\<lambda>x. x" targets] by auto
  then show ?thesis by (simp add: compute_target_analysis_def)
next
  case (Cons t ts)
  then have "targets \<noteq> []" by auto
  then show ?thesis using Cons by (simp add: compute_target_analysis_def)
qed

lemma sorted_map_mono:
  assumes "sorted xs" "\<And>x y. x \<le> y \<Longrightarrow> f x \<le> f y"
  shows "sorted (map f xs)"
  using assms by (induction xs) auto

lemma analysis_record_probability:
  "TargetAnalysis.probability (analysis_record ties outcomes num_sims t) =
     py_round ties (hit_probability outcomes num_sims t) 4"
  by (simp add: analysis_record_def)

lemma analysis_record_pct:
  "probability_pct (analysis_record ties outcomes num_sims t) =
     format_fixed ties False 1 (hit_probability outcomes num_sims t * 100) @ ''%''"
  by (simp add: analysis_record_def)

lemma hit_probability_nonneg: "0 < num_sims \<Longrightarrow> 0 \<le> hit_probability outcomes num_sims t"
  by (simp add: hit_probability_def)

text \<open>
  Claim C5. For every outcome distribution, every list of targets, every positive trial
  count (and every resolution of rounding ties), the target analysis returns one record
  per target, in ascending order of target whatever the order of the input: record \<open>i\<close>
  is that of the \<open>i\<close>-th smallest target \<open>t\<close> (its \<open>target\<close> field is \<open>t\<close> rounded to 2
  decimals). Its hit probability is \<open>count(outcomes \<ge> t) / trialCount\<close> rounded to 4
  decimals, and its percentage string is the unrounded quotient times 100, printed with
  one decimal (a whole number of tenths of a percent, at most half a tenth away) and a
  percent sign.
\<close>

theorem target_analysis_sorted_hit_probability:
  assumes "0 < num_sims"
  shows "\<exists>rs. compute_target_analysis ties outcomes targets num_sims = Inr rs \<and>
           length rs = length targets \<and>
           map target rs = map (\<lambda>t. py_round ties t 2) (sort targets) \<and>
           sorted (map target rs) \<and>
           (\<forall>i < length targets.
              hit_probability outcomes num_sims (sort targets ! i) =
                real (length (filter (\<lambda>x. x \<ge> sort targets ! i) outcomes))
                  / real_of_int num_sims \<and>
              rounded_to 2 (sort targets ! i) (target (rs ! i)) \<and>
              TargetAnalysis.probability (rs ! i) =
                py_round ties (hit_probability outcomes num_sims (sort targets ! i)) 4 \<and>
              rounded_to 4 (hit_probability outcomes num_sims (sort targets ! i))
                (TargetAnalysis.probability (rs ! i)) \<and>
              probability_pct (rs ! i) =
                format_fixed ties False 1
                  (hit_probability outcomes num_sims (sort targets ! i) * 100) @ ''%'' \<and>
              (\<exists>m::nat.
                 \<bar>real m - hit_probability outcomes num_sims (sort targets ! i) * 100 * 10\<bar>
                    \<le> 1 / 2 \<and>
                 probability_pct (rs ! i) = one_decimal m @ ''%''))"
proof -
  let ?rs = "map (analysis_record ties outcomes num_sims) (sort targets)"
  have run: "compute_target_analysis ties outcomes targets num_sims = Inr ?rs"
    using assms by (simp add: compute_target_analysis_eq)
  have tg: "map target ?rs = map (\<lambda>t. py_round ties t 2) (sort targets)"
    by (simp add: analysis_record_def)
  have "sorted (map (\<lambda>t. py_round ties t 2) (sort targets))"
    by (rule sorted_map_mono) (simp_all add: py_round_mono)
  then have srt: "sorted (map target ?rs)" by (simp only: tg)
  have each: "hit_probability outcomes num_sims (sort targets ! i) =
                real (length (filter (\<lambda>x. x \<ge> sort targets ! i) outcomes))
                  / real_of_int num_sims \<and>
              rounded_to 2 (sort targets ! i) (target (?rs ! i)) \<and>
              TargetAnalysis.probability (?rs ! i) =
                py_round ties (hit_probability outcomes num_sims (sort targets ! i)) 4 \<and>
              rounded_to 4 (hit_probability outcomes num_sims (sort targets ! i))
                (TargetAnalysis.probability (?rs ! i)) \<and>
              probability_pct (?rs ! i) =
                format_fixed ties False 1
                  (hit_probability outcomes num_sims (sort targets ! i) * 100) @ ''%'' \<and>
              (\<exists>m::nat.
                 \<bar>real m - hit_probability outcomes num_sims (sort targets ! i) * 100 * 10\<bar>
                    \<le> 1 / 2 \<and>
                 probability_pct (?rs ! i) = one_decimal m @ ''%'')"
    if i: "i < length targets" for i
  proof -
    let ?t = "sort targets ! i"
    let ?q = "hit_probability outcomes num_sims ?t"
    have r: "?rs ! i = analysis_record ties outcomes num_sims ?t"
      using i by simp
    have q0: "0 \<le> ?q * 100"
      using hit_probability_nonneg [OF assms, of outcomes ?t] by simp
    obtain m :: nat where m: "\<bar>real m - ?q * 100 * 10\<bar> \<le> 1 / 2"
      "format_fixed ties False 1 (?q * 100) = one_decimal m"
      using format_fixed_one_decimal [OF q0, of ties] by blast
    have a: "?q = real (length (filter (\<lambda>x. x \<ge> ?t) outcomes)) / real_of_int num_sims"
      by (simp add: hit_probability_def)
    have b: "rounded_to 2 ?t (target (?rs ! i))"
      unfolding r by (simp add: analysis_record_def py_round_rounded_to)
    have c: "TargetAnalysis.probability (?rs ! i) = py_round ties ?q 4"
      unfolding r by (rule analysis_record_probability)
    have d: "rounded_to 4 ?q (TargetAnalysis.probability (?rs ! i))"
      unfolding c by (rule py_round_rounded_to)
    have e: "probability_pct (?rs ! i) = format_fixed ties False 1 (?q * 100) @ ''%''"
      unfolding r by (rule analysis_record_pct)
    have f: "\<exists>m::nat. \<bar>real m - ?q * 100 * 10\<bar> \<le> 1 / 2 \<and>
                probability_pct (?rs ! i) = one_decimal m @ ''%''"
      using m e by auto
    show ?thesis using a b c d e f by blast
  qed
  have len: "length ?rs = length targets" by simp
  show ?thesis
    using run len tg srt each by (intro exI [of _ ?rs]) blast
qed

text \<open>
  Three runs of the code. In the first no value is a tie. In the second one outcome of
  32 reaches the target: the quotient 0.03125 is a tie at 4 decimals. In the third one of
  16 does: the percentage 6.25 is a tie at one decimal. At a tie the value returned is
  one of the two below, by the double that stands for the exact value.
\<close>

lemma target_analysis_example:
  "compute_target_analysis ties_up [1, 2, 3] [2, 1, 5] 3 =
     Inr [\<lparr>target = 1, probability = 1, probability_pct = ''100.0%''\<rparr>,
          \<lparr>target = 2, probability = 6667 / 10000, probability_pct = ''66.7%''\<rparr>,
          \<lparr>target = 5, probability = 0, probability_pct = ''0.0%''\<rparr>]"
  "compute_target_analysis ties_down [1, 2, 3] [2, 1, 5] 3 =
     Inr [\<lparr>target = 1, probability = 1, probability_pct = ''100.0%''\<rparr>,
          \<lparr>target = 2, probability = 6667 / 10000, probability_pct = ''66.7%''\<rparr>,
          \<lparr>target = 5, probability = 0, probability_pct = ''0.0%''\<rparr>]"
  by code_simp+

lemma target_analysis_tie_examples:
  "compute_target_analysis ties_up (1 # replicate 31 0) [1] 32 =
     Inr [\<lparr>target = 1, probability = 313 / 10000, probability_pct = ''3.1%''\<rparr>]"
  "compute_target_analysis ties_down (1 # replicate 31 0) [1] 32 =
     Inr [\<lparr>target = 1, probability = 312 / 10000, probability_pct = ''3.1%''\<rparr>]"
  "compute_target_analysis ties_up (1 # replicate 15 0) [1] 16 =
     Inr [\<lparr>target = 1, probability = 625 / 10000, probability_pct = ''6.3%''\<rparr>]"
  "compute_target_analysis ties_down (1 # replicate 15 0) [1] 16 =
     Inr [\<lparr>target = 1, probability = 625 / 10000, probability_pct = ''6.2%''\<rparr>]"
  by code_simp+

theorem target_analysis_sorted_hit_probability_witness:
  "(0::int) < 3 \<and>
   compute_target_analysis ties_up [1, 2, 3] [2, 1, 5] 3 =
     Inr [\<lparr>target = 1, probability = 1, probability_pct = ''100.0%''\<rparr>,
          \<lparr>target = 2, probability = 6667 / 10000, probability_pct = ''66.7%''\<rparr>,
          \<lparr>target = 5, probability = 0, probability_pct = ''0.0%''\<rparr>]"
  using target_analysis_sorted_hit_probability [of 3 ties_up "[1, 2, 3]" "[2, 1, 5]"]
    target_analysis_example(1)
  by simp

section \<open>Distribution statistics: properties\<close>

lemma np_percentile_lerp:
  assumes "0 \<le> q" "a \<noteq> []"
  shows "np_percentile a q = lerp_sorted (sort a) ((real (length a) - 1) * (q / 100))"
proof -
  have "0 \<le> (real (length a) - 1) * (q / 100)"
    using assms by (cases a) simp_all
  then show ?thesis
    by (simp add: np_percentile_def lerp_sorted_def Let_def not_less)
qed

lemma floor_index_bound:
  assumes "0 \<le> v" "v < real n - 1"
  shows "nat \<lfloor>v\<rfloor> + 1 < n"
proof -
  have "of_int \<lfloor>v\<rfloor> \<le> v" by (rule of_int_floor_le)
  then have "of_int \<lfloor>v\<rfloor> < real n - 1" using assms(2) by linarith
  then have "of_int \<lfloor>v\<rfloor> < (of_int (int n - 1) :: real)" by simp
  then have "\<lfloor>v\<rfloor> < int n - 1" by (simp only: of_int_less_iff)
  moreover have "0 \<le> \<lfloor>v\<rfloor>" using assms(1) by simp
  ultimately show ?thesis by linarith
qed

lemma lerp_sorted_between:
  assumes "sorted s" "0 \<le> v" "v < real (length s) - 1"
  shows "s ! nat \<lfloor>v\<rfloor> \<le> lerp_sorted s v" and "lerp_sorted s v \<le> s ! (nat \<lfloor>v\<rfloor> + 1)"
proof -
  let ?k = "nat \<lfloor>v\<rfloor>"
  let ?g = "v - of_int \<lfloor>v\<rfloor>"
  have k: "?k + 1 < length s" by (rule floor_index_bound [OF assms(2,3)])
  have le: "s ! ?k \<le> s ! (?k + 1)"
    using assms(1) k by (simp add: sorted_nth_mono)
  have g: "0 \<le> ?g" "?g \<le> 1" by linarith+
  have eq: "lerp_sorted s v = s ! ?k + (s ! (?k + 1) - s ! ?k) * ?g"
    using assms(3) by (simp add: lerp_sorted_def)
  show "s ! ?k \<le> lerp_sorted s v"
    using le g by (simp add: eq)
  have "(s ! (?k + 1) - s ! ?k) * ?g \<le> (s ! (?k + 1) - s ! ?k) * 1"
    using le g by (intro mult_left_mono) simp_all
  then show "lerp_sorted s v \<le> s ! (?k + 1)"
    by (simp add: eq)
qed

lemma lerp_sorted_mono:
  assumes "sorted s" "s \<noteq> []" "0 \<le> v1" "v1 \<le> v2"
  shows "lerp_sorted s v1 \<le> lerp_sorted s v2"
proof (cases "v2 \<ge> real (length s) - 1")
  case True
  then have v2: "lerp_sorted s v2 = s ! (length s - 1)" by (simp add: lerp_sorted_def)
  show ?thesis
  proof (cases "v1 \<ge> real (length s) - 1")
    case True
    then show ?thesis using v2 by (simp add: lerp_sorted_def)
  next
    case False
    then have lt: "v1 < real (length s) - 1" by simp
    have "lerp_sorted s v1 \<le> s ! (nat \<lfloor>v1\<rfloor> + 1)"
      by (rule lerp_sorted_between(2) [OF assms(1,3) lt])
    also have "\<dots> \<le> s ! (length s - 1)"
      using floor_index_bound [OF assms(3) lt] assms(1,2)
      by (intro sorted_nth_mono) simp_all
    finally show ?thesis using v2 by simp
  qed
next
  case False
  then have lt2: "v2 < real (length s) - 1" by simp
  then have lt1: "v1 < real (length s) - 1" using assms(4) by simp
  have v2pos: "0 \<le> v2" using assms(3,4) by simp
  show ?thesis
  proof (cases "\<lfloor>v1\<rfloor> = \<lfloor>v2\<rfloor>")
    case True
    let ?k = "nat \<lfloor>v1\<rfloor>"
    have k: "?k + 1 < length s" by (rule floor_index_bound [OF assms(3) lt1])
    have le: "s ! ?k \<le> s ! (?k + 1)"
      using assms(1) k by (simp add: sorted_nth_mono)
    have "(s ! (?k + 1) - s ! ?k) * (v1 - of_int \<lfloor>v1\<rfloor>)
            \<le> (s ! (?k + 1) - s ! ?k) * (v2 - of_int \<lfloor>v1\<rfloor>)"
      using le assms(4) by (intro mult_left_mono) simp_all
    then show ?thesis using lt1 lt2 True by (simp add: lerp_sorted_def)
  next
    case False
    then have fl: "\<lfloor>v1\<rfloor> < \<lfloor>v2\<rfloor>" using floor_mono [OF assms(4)] by linarith
    have "0 \<le> \<lfloor>v1\<rfloor>" using assms(3) by simp
    then have idx: "nat \<lfloor>v1\<rfloor> + 1 \<le> nat \<lfloor>v2\<rfloor>" using fl by linarith
    have k2: "nat \<lfloor>v2\<rfloor> + 1 < length s" by (rule floor_index_bound [OF v2pos lt2])
    have "lerp_sorted s v1 \<le> s ! (nat \<lfloor>v1\<rfloor> + 1)"
      by (rule lerp_sorted_between(2) [OF assms(1,3) lt1])
    also have "\<dots> \<le> s ! nat \<lfloor>v2\<rfloor>"
      using idx k2 assms(1) by (intro sorted_nth_mono) simp_all
    also have "\<dots> \<le> lerp_sorted s v2"
      by (rule lerp_sorted_between(1) [OF assms(1) v2pos lt2])
    finally show ?thesis .
  qed
qed

lemma np_percentile_mono:
  assumes "a \<noteq> []" "0 \<le> q1" "q1 \<le> q2"
  shows "np_percentile a q1 \<le> np_percentile a q2"
proof -
  have n: "0 \<le> real (length a) - 1" using assms(1) by (cases a) simp_all
  have q2: "0 \<le> q2" using assms by simp
  have "lerp_sorted (sort a) ((real (length a) - 1) * (q1 / 100))
          \<le> lerp_sorted (sort a) ((real (length a) - 1) * (q2 / 100))"
  proof (rule lerp_sorted_mono)
    show "sorted (sort a)" by simp
    show "sort a \<noteq> []" using assms(1) by (metis length_0_conv length_sort)
    show "0 \<le> (real (length a) - 1) * (q1 / 100)" using n assms(2) by simp
    show "(real (length a) - 1) * (q1 / 100) \<le> (real (length a) - 1) * (q2 / 100)"
      using n assms(3) by (intro mult_left_mono) simp_all
  qed
  then show ?thesis
    using assms q2 by (simp add: np_percentile_lerp)
qed

lemma np_median_percentile:
  assumes "a \<noteq> []"
  shows "np_median a = np_percentile a 50"
proof -
  let ?s = "sort a"
  let ?n = "length a"
  have pc: "np_percentile a 50 = lerp_sorted ?s ((real ?n - 1) * (50 / 100))"
    using assms by (simp add: np_percentile_lerp)
  show ?thesis
  proof (cases "even ?n")
    case True
    then obtain k where k: "?n = 2 * k" by (auto elim: evenE)
    then have kpos: "0 < k" using assms by (cases k) simp_all
    have v: "(real ?n - 1) * (50 / 100) = real k - 1 / 2" using k by simp
    have fl: "\<lfloor>real k - 1 / 2\<rfloor> = int k - 1" by linarith
    have nfl: "nat (int k - 1) = k - 1" by simp
    have "lerp_sorted ?s (real k - 1 / 2) = ?s ! (k - 1) + (?s ! k - ?s ! (k - 1)) * (1 / 2)"
      using k kpos by (simp add: lerp_sorted_def fl nfl)
    moreover have "np_median a = (?s ! (k - 1) + ?s ! k) / 2"
      using k True by (simp add: np_median_def np_mean_def Let_def)
    ultimately show ?thesis using pc v by (simp add: field_simps)
  next
    case False
    then obtain k where k: "?n = 2 * k + 1" by (auto elim: oddE)
    have v: "(real ?n - 1) * (50 / 100) = real k" using k by simp
    have md: "np_median a = ?s ! k"
      using k False by (simp add: np_median_def np_mean_def Let_def)
    have "lerp_sorted ?s (real k) = ?s ! k"
      using k by (cases "k = 0") (simp_all add: lerp_sorted_def)
    then show ?thesis using pc v md by simp
  qed
qed



lemma compute_summary_statistics_nonempty:
  assumes "outcomes \<noteq> []"
  shows "compute_summary_statistics ties outcomes opps =
     Inr \<lparr>mean = np_mean outcomes,
          median = np_median outcomes,
          std_dev = np_std outcomes,
          p10 = np_percentile outcomes 10,
          p25 = np_percentile outcomes 25,
          p75 = np_percentile outcomes 75,
          p90 = np_percentile outcomes 90,
          min_outcome = Min (set outcomes),
          max_outcome = Max (set outcomes),
          total_pipeline_value = py_round ties (sum_list (map amount opps)) 2,
          weighted_pipeline_value =
            py_round ties (sum_list (map (\<lambda>opp. amount opp * Opportunity.probability opp) opps)) 2\<rparr>"
  using assms by (simp add: compute_summary_statistics_def)

lemma compute_summary_statistics_empty:
  "compute_summary_statistics ties [] opps = Inl EmptyArrayError"
  by (simp add: compute_summary_statistics_def)

text \<open>
  Claim C8. For every non-empty outcome distribution the summary statistics are returned
  and their percentile outputs are in order: \<open>p10 \<le> p25 \<le> median \<le> p75 \<le> p90\<close>. (Of
  an empty distribution the source returns no statistics: numpy raises.)
\<close>

theorem percentiles_monotone:
  assumes "outcomes \<noteq> []"
  shows "\<exists>s. compute_summary_statistics ties outcomes opps = Inr s \<and>
           p10 s \<le> p25 s \<and> p25 s \<le> median s \<and> median s \<le> p75 s \<and> p75 s \<le> p90 s"
proof -
  have "np_percentile outcomes 10 \<le> np_percentile outcomes 25"
       "np_percentile outcomes 25 \<le> np_percentile outcomes 50"
       "np_percentile outcomes 50 \<le> np_percentile outcomes 75"
       "np_percentile outcomes 75 \<le> np_percentile outcomes 90"
    using assms by (simp_all add: np_percentile_mono)
  then show ?thesis
    using assms
    by (simp add: compute_summary_statistics_nonempty np_median_percentile)
qed

lemma percentiles_example:
  "compute_summary_statistics ties [4, 3, 2, 1, 5] [] =
     Inr \<lparr>mean = 3, median = 3, std_dev = np_std [4, 3, 2, 1, 5],
          p10 = 7 / 5, p25 = 2, p75 = 4, p90 = 23 / 5,
          min_outcome = 1, max_outcome = 5,
          total_pipeline_value = 0, weighted_pipeline_value = 0\<rparr>"
  by (simp add: compute_summary_statistics_def np_mean_def np_median_def np_percentile_def
        py_round_zero Let_def)

theorem percentiles_monotone_witness:
  "([4, 3, 2, 1, 5] :: real list) \<noteq> [] \<and>
   compute_summary_statistics ties_up [4, 3, 2, 1, 5] [] =
     Inr \<lparr>mean = 3, median = 3, std_dev = np_std [4, 3, 2, 1, 5],
          p10 = 7 / 5, p25 = 2, p75 = 4, p90 = 23 / 5,
          min_outcome = 1, max_outcome = 5,
          total_pipeline_value = 0, weighted_pipeline_value = 0\<rparr>"
  using percentiles_monotone [where outcomes = "[4, 3, 2, 1, 5]" and ties = ties_up and opps = "[]"]
        percentiles_example [of ties_up]
  by simp












section \<open>Histogram: properties\<close>


lemma bucket_edge_width:
  "bucket_edge first_edge last_edge nb (k + 1) - bucket_edge first_edge last_edge nb k
     = (last_edge - first_edge) / real nb"
proof -
  define w where "w = (last_edge - first_edge) / real nb"
  have "real (k + 1) * w = real k * w + w" by (simp add: distrib_right)
  then show ?thesis unfolding bucket_edge_def w_def [symmetric] by simp
qed


lemma np_linspace_nth:
  assumes "k \<le> nb"
  shows "np_linspace first_edge last_edge (nb + 1) ! k = bucket_edge first_edge last_edge nb k"
proof -
  have "k < length [0..<nb + 1]" using assms by simp
  then have "np_linspace first_edge last_edge (nb + 1) ! k
               = real ([0..<nb + 1] ! k) * ((last_edge - first_edge) / real nb) + first_edge"
    unfolding np_linspace_def by (subst nth_map) simp_all
  also have "[0..<nb + 1] ! k = k" using assms by (simp del: upt_Suc)
  finally show ?thesis by (simp add: bucket_edge_def)
qed

lemma length_np_linspace: "length (np_linspace a b num) = num"
  by (simp add: np_linspace_def)

lemma bin_index_unfold:
  "bin_index first_edge last_edge nb E x =
     (let i0 = nat \<lfloor>(x - first_edge) / (last_edge - first_edge) * real nb\<rfloor>;
          i1 = (if i0 = nb then i0 - 1 else i0);
          i2 = (if x < E ! i1 then i1 - 1 else i1)
      in if x \<ge> E ! (i2 + 1) \<and> i2 \<noteq> nb - 1 then i2 + 1 else i2)"
  by (simp add: bin_index_def Let_def)

lemma bin_index_last:
  assumes "nat \<lfloor>(x - first_edge) / (last_edge - first_edge) * real nb\<rfloor> = nb"
    and "\<not> x < E ! (nb - 1)"
  shows "bin_index first_edge last_edge nb E x = nb - 1"
  using assms by (simp add: bin_index_unfold Let_def)

lemma bin_index_inner:
  assumes "nat \<lfloor>(x - first_edge) / (last_edge - first_edge) * real nb\<rfloor> = i"
    and "i < nb" and "\<not> x < E ! i" and "\<not> E ! (i + 1) \<le> x"
  shows "bin_index first_edge last_edge nb E x = i"
  using assms by (simp add: bin_index_unfold Let_def)

lemma bin_index_in_bucket:
  assumes lt: "first_edge < last_edge" and nb: "0 < nb"
    and lo: "first_edge \<le> x" and hi: "x \<le> last_edge"
  shows "bin_index first_edge last_edge nb (np_linspace first_edge last_edge (nb + 1)) x < nb"
    and "in_bucket first_edge last_edge nb
           (bin_index first_edge last_edge nb (np_linspace first_edge last_edge (nb + 1)) x) x"
proof -
  define E where "E = np_linspace first_edge last_edge (nb + 1)"
  define w where "w = (last_edge - first_edge) / real nb"
  define f where "f = (x - first_edge) / (last_edge - first_edge) * real nb"
  have wpos: "0 < w" using lt nb by (simp add: w_def)
  have nbw: "real nb * w = last_edge - first_edge" using nb by (simp add: w_def)
  have fw: "f * w = x - first_edge" using lt nb by (simp add: f_def w_def)
  have f0: "0 \<le> f" using lt lo by (simp add: f_def)
  have edge: "E ! k = first_edge + real k * w" if "k \<le> nb" for k
    using that by (simp only: E_def w_def np_linspace_nth bucket_edge_def)
  have be: "bucket_edge first_edge last_edge nb k = first_edge + real k * w" for k
    by (simp only: bucket_edge_def w_def)
  have "bin_index first_edge last_edge nb E x < nb \<and>
        in_bucket first_edge last_edge nb (bin_index first_edge last_edge nb E x) x"
  proof (cases "x = last_edge")
    case True
    then have "f = real nb" using lt by (simp add: f_def)
    then have i0: "nat \<lfloor>f\<rfloor> = nb" by simp
    have e1: "E ! (nb - 1) = first_edge + real (nb - 1) * w" by (rule edge) simp
    have "real (nb - 1) * w \<le> real nb * w"
      using wpos by (intro mult_right_mono) simp_all
    then have le: "E ! (nb - 1) \<le> x" using True e1 nbw by linarith
    have bi: "bin_index first_edge last_edge nb E x = nb - 1"
      by (rule bin_index_last) (use i0 le in \<open>simp_all add: f_def not_less\<close>)
    have "bucket_edge first_edge last_edge nb (nb - 1) \<le> x"
      using le e1 be [of "nb - 1"] by simp
    moreover have "x \<le> bucket_edge first_edge last_edge nb nb"
      using True nbw be [of nb] by simp
    ultimately show ?thesis using bi nb by (simp add: in_bucket_def)
  next
    case False
    then have xlt: "x < last_edge" using hi by simp
    have "f * w < real nb * w" using fw nbw xlt by linarith
    then have flt: "f < real nb" using wpos by (simp add: mult_less_cancel_right)
    define i where "i = nat \<lfloor>f\<rfloor>"
    have fl0: "0 \<le> \<lfloor>f\<rfloor>" using f0 by simp
    have ri: "real i = of_int \<lfloor>f\<rfloor>" using fl0 by (simp add: i_def)
    have i_le: "real i \<le> f" unfolding ri by (rule of_int_floor_le)
    have i_gt: "f < real i + 1" unfolding ri by linarith
    have "real i < real nb" using i_le flt by linarith
    then have i_lt: "i < nb" by simp
    have ei: "E ! i = first_edge + real i * w" by (rule edge) (use i_lt in simp)
    have "E ! (i + 1) = first_edge + real (i + 1) * w" by (rule edge) (use i_lt in simp)
    moreover have "real (i + 1) * w = real i * w + w" by (simp add: distrib_right)
    ultimately have ei1: "E ! (i + 1) = first_edge + real i * w + w" by simp
    have "real i * w \<le> f * w" using i_le wpos by (intro mult_right_mono) simp_all
    then have le: "E ! i \<le> x" using ei fw by linarith
    have "f * w < (real i + 1) * w" using i_gt wpos by (intro mult_strict_right_mono)
    moreover have "(real i + 1) * w = real i * w + w" by (simp add: distrib_right)
    ultimately have gt: "x < E ! (i + 1)" using ei1 fw by linarith
    have bi: "bin_index first_edge last_edge nb E x = i"
      by (rule bin_index_inner) (use i_lt le gt in \<open>simp_all add: f_def i_def not_less not_le\<close>)
    have b1: "bucket_edge first_edge last_edge nb i \<le> x"
      using le ei be [of i] by simp
    have "bucket_edge first_edge last_edge nb (i + 1) = first_edge + real (i + 1) * w"
      by (rule be)
    then have b2: "x < bucket_edge first_edge last_edge nb (i + 1)"
      using gt \<open>E ! (i + 1) = first_edge + real (i + 1) * w\<close> by simp
    have b3: "x \<le> bucket_edge first_edge last_edge nb nb"
      using hi nbw be [of nb] by simp
    show ?thesis using bi i_lt b1 b2 b3 by (simp add: in_bucket_def)
  qed
  then show "bin_index first_edge last_edge nb (np_linspace first_edge last_edge (nb + 1)) x < nb"
    and "in_bucket first_edge last_edge nb
           (bin_index first_edge last_edge nb (np_linspace first_edge last_edge (nb + 1)) x) x"
    by (simp_all add: E_def)
qed



lemma fold_max_le:
  "fold max xs (a::nat) \<le> n \<longleftrightarrow> a \<le> n \<and> (\<forall>x \<in> set xs. x \<le> n)"
  by (induction xs arbitrary: a) auto

lemma np_bincount_length:
  assumes "\<forall>x \<in> set xs. x < n"
  shows "length (np_bincount xs n) = n"
proof -
  have "fold max (map Suc xs) 0 \<le> n"
    using assms by (auto simp: fold_max_le)
  then show ?thesis by (simp add: np_bincount_def max_def)
qed




lemma get_outer_edges_nonempty:
  assumes "a \<noteq> []"
  shows "get_outer_edges a =
     (if Min (set a) = Max (set a) then (Min (set a) - 1 / 2, Max (set a) + 1 / 2)
      else (Min (set a), Max (set a)))"
  using assms by (simp add: get_outer_edges_def)

lemma get_outer_edges_empty: "get_outer_edges [] = (0, 1)"
  by (simp add: get_outer_edges_def)

lemma get_outer_edges_less:
  assumes "get_outer_edges a = (first_edge, last_edge)"
  shows "first_edge < last_edge"
proof (cases "a = []")
  case True
  then show ?thesis using assms by (simp add: get_outer_edges_empty)
next
  case False
  then have le: "Min (set a) \<le> Max (set a)" by simp
  show ?thesis
  proof (cases "Min (set a) = Max (set a)")
    case True
    then have "first_edge = Min (set a) - 1 / 2" "last_edge = Max (set a) + 1 / 2"
      using assms False by (simp_all add: get_outer_edges_nonempty)
    then show ?thesis using le by linarith
  next
    case ne: False
    then have "first_edge = Min (set a)" "last_edge = Max (set a)"
      using assms False by (simp_all add: get_outer_edges_nonempty)
    then show ?thesis using le ne by linarith
  qed
qed

lemma get_outer_edges_cover:
  assumes "get_outer_edges a = (first_edge, last_edge)" "x \<in> set a"
  shows "first_edge \<le> x \<and> x \<le> last_edge"
proof -
  have ne: "a \<noteq> []" using assms(2) by auto
  have mm: "Min (set a) \<le> x" "x \<le> Max (set a)" using assms(2) by simp_all
  show ?thesis
  proof (cases "Min (set a) = Max (set a)")
    case True
    then have "first_edge = Min (set a) - 1 / 2" "last_edge = Max (set a) + 1 / 2"
      using assms(1) ne by (simp_all add: get_outer_edges_nonempty)
    then show ?thesis using mm by linarith
  next
    case False
    then have "first_edge = Min (set a)" "last_edge = Max (set a)"
      using assms(1) ne by (simp_all add: get_outer_edges_nonempty)
    then show ?thesis using mm by linarith
  qed
qed

lemma np_histogram_eq:
  assumes "1 \<le> bins" "get_outer_edges a = (first_edge, last_edge)"
  shows "np_histogram a bins =
     Inr (np_bincount
            (map (bin_index first_edge last_edge (nat bins)
                    (np_linspace first_edge last_edge (nat bins + 1))) a)
            (nat bins),
          np_linspace first_edge last_edge (nat bins + 1))"
proof -
  have "filter (\<lambda>x. first_edge \<le> x \<and> x \<le> last_edge) a = a"
    using get_outer_edges_cover [OF assms(2)] by (simp add: filter_id_conv)
  then show ?thesis
    using assms by (simp add: np_histogram_def Let_def)
qed

lemma np_histogram_invalid_bins:
  "bins < 1 \<Longrightarrow> np_histogram a bins = Inl ValueError"
  by (simp add: np_histogram_def)

lemma histogram_indices_bounded:
  assumes "get_outer_edges a = (first_edge, last_edge)" "0 < nb"
  shows "\<forall>i \<in> set (map (bin_index first_edge last_edge nb
                           (np_linspace first_edge last_edge (nb + 1))) a). i < nb"
  using bin_index_in_bucket(1) [OF get_outer_edges_less [OF assms(1)] assms(2)]
        get_outer_edges_cover [OF assms(1)]
  by auto


lemma compute_histogram_eq:
  assumes "1 \<le> num_buckets" "get_outer_edges outcomes = (first_edge, last_edge)"
  shows "compute_histogram ties outcomes num_buckets =
     Inr (map (histogram_bucket ties
                 (np_bincount
                    (map (bin_index first_edge last_edge (nat num_buckets)
                            (np_linspace first_edge last_edge (nat num_buckets + 1))) outcomes)
                    (nat num_buckets))
                 (np_linspace first_edge last_edge (nat num_buckets + 1))
                 (int (length outcomes)))
            [0..<nat num_buckets])"
proof -
  have nb: "0 < nat num_buckets" using assms(1) by simp
  have "length (np_bincount
                    (map (bin_index first_edge last_edge (nat num_buckets)
                            (np_linspace first_edge last_edge (nat num_buckets + 1))) outcomes)
                    (nat num_buckets)) = nat num_buckets"
    by (rule np_bincount_length [OF histogram_indices_bounded [OF assms(2) nb]])
  then show ?thesis
    by (simp add: compute_histogram_def np_histogram_eq [OF assms] Let_def)
qed

lemma compute_histogram_invalid_buckets:
  "num_buckets < 1 \<Longrightarrow> compute_histogram ties outcomes num_buckets = Inl ValueError"
  by (simp add: compute_histogram_def np_histogram_invalid_bins)





text \<open>
  A run with ties: of 32 outcomes one falls in the first of two buckets, and the
  frequencies \<open>1 / 32 = 0.03125\<close> and \<open>31 / 32 = 0.96875\<close> are both half-way between two
  decimals of 4 digits.
\<close>

lemma histogram_tie_example:
  "map_sum id (map frequency) (compute_histogram ties_up (0 # replicate 31 1) 2) =
     Inr [313/10000, 9688/10000]"
  "map_sum id (map frequency) (compute_histogram ties_down (0 # replicate 31 1) 2) =
     Inr [312/10000, 9687/10000]"
  by code_simp+



section \<open>Orchestrator: properties\<close>

lemma filter_by_horizon_overflow:
  assumes "\<not> horizon_in_calendar today horizon_days"
  shows "filter_opportunities_by_horizon today opps horizon_days = Inl OverflowError"
  using assms
  by (cases horizon_days)
     (auto simp: horizon_in_calendar_def filter_opportunities_by_horizon_def date_plus_days_def)

lemma filter_by_horizon_total:
  assumes "horizon_in_calendar today horizon_days"
  shows "\<exists>included. filter_opportunities_by_horizon today opps horizon_days =
            Inr (included, int (length opps) - int (length included)) \<and>
          subseq included opps \<and> set included \<subseteq> set opps"
proof (cases horizon_days)
  case None
  then show ?thesis by (simp add: filter_by_horizon_None)
next
  case (Some days)
  then show ?thesis using assms by (simp add: filter_by_horizon_Some)
qed

lemma compute_histogram_total:
  assumes "1 \<le> num_buckets"
  shows "\<exists>bs. compute_histogram ties outcomes num_buckets = Inr bs"
proof -
  obtain first_edge last_edge where "get_outer_edges outcomes = (first_edge, last_edge)"
    by (cases "get_outer_edges outcomes") simp
  then show ?thesis using compute_histogram_eq [OF assms] by simp
qed

lemma run_full_simulation_overflow:
  assumes "\<not> horizon_in_calendar (current_date env) horizon_days"
  shows "run_full_simulation ties env opps num_sims horizon_days revenue_targets = Inl OverflowError"
  using filter_by_horizon_overflow [OF assms]
  by (simp add: run_full_simulation_def)

lemma run_full_simulation_negative:
  assumes "horizon_in_calendar (current_date env) horizon_days" "num_sims < 0"
  shows "run_full_simulation ties env opps num_sims horizon_days revenue_targets = Inl ValueError"
proof -
  obtain included where
    "filter_opportunities_by_horizon (current_date env) opps horizon_days =
       Inr (included, int (length opps) - int (length included))"
    using filter_by_horizon_total [OF assms(1)] by blast
  then show ?thesis
    using assms(2) by (simp add: run_full_simulation_def run_monte_carlo_negative)
qed

lemma run_full_simulation_zero:
  assumes "horizon_in_calendar (current_date env) horizon_days"
  shows "run_full_simulation ties env opps 0 horizon_days revenue_targets = Inl EmptyArrayError"
proof -
  obtain included where f:
    "filter_opportunities_by_horizon (current_date env) opps horizon_days =
       Inr (included, int (length opps) - int (length included))"
    using filter_by_horizon_total [OF assms(1)] by blast
  obtain outs g' where r: "run_monte_carlo included 0 (generator env) = Inr (outs, g')"
    and "length outs = nat 0"
    using run_monte_carlo_total [of 0 included "generator env"] by auto
  then have "outs = []" by simp
  then show ?thesis
    using f r by (simp add: run_full_simulation_def compute_summary_statistics_empty)
qed

lemma run_full_simulation_ok:
  assumes "horizon_in_calendar (current_date env) horizon_days" "0 < num_sims"
  shows "\<exists>included outs g' stats analysis hist.
     filter_opportunities_by_horizon (current_date env) opps horizon_days =
       Inr (included, int (length opps) - int (length included)) \<and>
     subseq included opps \<and> set included \<subseteq> set opps \<and>
     run_monte_carlo included num_sims (generator env) = Inr (outs, g') \<and>
     length outs = nat num_sims \<and>
     compute_summary_statistics ties outs included = Inr stats \<and>
     compute_target_analysis ties outs (effective_targets revenue_targets) num_sims = Inr analysis \<and>
     compute_histogram ties outs 12 = Inr hist \<and>
     run_full_simulation ties env opps num_sims horizon_days revenue_targets =
       Inr (\<lparr>summary_statistics = stats,
              target_analysis = analysis,
              histogram_buckets = hist,
              metadata = run_metadata ties env num_sims horizon_days (int (length included))
                           (int (length opps) - int (length included))\<rparr>, g')"
proof -
  obtain included where f:
    "filter_opportunities_by_horizon (current_date env) opps horizon_days =
       Inr (included, int (length opps) - int (length included))"
    and sub: "subseq included opps" "set included \<subseteq> set opps"
    using filter_by_horizon_total [OF assms(1)] by blast
  obtain outs g' where r: "run_monte_carlo included num_sims (generator env) = Inr (outs, g')"
    and len: "length outs = nat num_sims"
    using run_monte_carlo_total [of num_sims included "generator env"] assms(2) by auto
  have ne: "outs \<noteq> []" using len assms(2) by auto
  obtain stats where s: "compute_summary_statistics ties outs included = Inr stats"
    using compute_summary_statistics_nonempty [OF ne] by blast
  obtain analysis where
    a: "compute_target_analysis ties outs (effective_targets revenue_targets) num_sims = Inr analysis"
    using compute_target_analysis_eq [of num_sims] assms(2) by auto
  obtain hist where h: "compute_histogram ties outs 12 = Inr hist"
    using compute_histogram_total [of 12 ties outs] by auto
  have "run_full_simulation ties env opps num_sims horizon_days revenue_targets =
       Inr (\<lparr>summary_statistics = stats,
              target_analysis = analysis,
              histogram_buckets = hist,
              metadata = run_metadata ties env num_sims horizon_days (int (length included))
                           (int (length opps) - int (length included))\<rparr>, g')"
    using f r s a h
    by (simp add: run_full_simulation_def effective_targets_def run_metadata_def Let_def)
  then show ?thesis using f sub r len s a h by blast
qed

lemma run_monte_carlo_nonneg:
  assumes "\<forall>opp \<in> set opps. 0 \<le> amount opp"
    and "run_monte_carlo opps n g = Inr (outs, g')"
  shows "\<forall>x \<in> set outs. 0 \<le> x"
proof (cases "n < 0")
  case True
  then show ?thesis using assms(2) by (simp add: run_monte_carlo_negative)
next
  case False
  then have n: "0 \<le> n" by simp
  show ?thesis
  proof (cases "opps = []")
    case True
    then show ?thesis using assms(2) n by (auto simp: run_monte_carlo_empty)
  next
    case False
    have "\<forall>a \<in> set (map amount opps). 0 \<le> a" using assms(1) by simp
    then have "\<And>ws. 0 \<le> revenue_row (map amount opps) ws"
      using revenue_row_bounds by blast
    then show ?thesis
      using assms(2) n False by (auto simp: run_monte_carlo_nonempty)
  qed
qed

lemma analysis_record_certain:
  assumes "\<forall>x \<in> set outcomes. t \<le> x" "0 < num_sims" "length outcomes = nat num_sims"
  shows "TargetAnalysis.probability (analysis_record ties outcomes num_sims t) = 1"
proof -
  have "filter (\<lambda>x. t \<le> x) outcomes = outcomes"
    using assms(1) by (simp add: filter_id_conv)
  then have "hit_probability outcomes num_sims t = 1"
    using assms(2,3) by (simp add: hit_probability_def)
  then show ?thesis
    by (simp add: analysis_record_def py_round_def round_nearest_def)
qed

text \<open>
  Claim C9, as the code has it. The core validates nothing itself (the request schema
  does, upstream). Called directly with a positive trial count and any non-empty list of
  targets, non-positive ones included, it returns a result with one record per target;
  the record of a target \<open>\<le> 0\<close> has hit probability 1 (amounts being non-negative, every
  outcome reaches it). Called with a trial count of 0 it returns no result: it fails with
  the exception numpy raises on the empty outcome array; with a negative trial count it
  fails with numpy's ValueError. (The horizon is assumed to give a calendar date.)
\<close>

theorem core_performs_no_validation:
  assumes "horizon_in_calendar (current_date env) horizon_days"
  shows "(0 < num_sims \<and> targets \<noteq> [] \<and> (\<forall>opp \<in> set opps. 0 \<le> amount opp) \<longrightarrow>
            (\<exists>resp g'.
               run_full_simulation ties env opps num_sims horizon_days (Some targets) = Inr (resp, g') \<and>
               map target (target_analysis resp) = map (\<lambda>t. py_round ties t 2) (sort targets) \<and>
               (\<forall>i < length targets.
                  sort targets ! i \<le> 0 \<longrightarrow>
                    TargetAnalysis.probability (target_analysis resp ! i) = 1))) \<and>
         run_full_simulation ties env opps 0 horizon_days revenue_targets = Inl EmptyArrayError \<and>
         (num_sims < 0 \<longrightarrow>
            run_full_simulation ties env opps num_sims horizon_days revenue_targets = Inl ValueError)"
proof (intro conjI impI)
  assume h: "0 < num_sims \<and> targets \<noteq> [] \<and> (\<forall>opp \<in> set opps. 0 \<le> amount opp)"
  then have n: "0 < num_sims" and ts: "targets \<noteq> []"
    and am: "\<forall>opp \<in> set opps. 0 \<le> amount opp" by simp_all
  obtain included outs g' stats analysis hist where
    sub: "set included \<subseteq> set opps"
    and mc: "run_monte_carlo included num_sims (generator env) = Inr (outs, g')"
    and len: "length outs = nat num_sims"
    and ta: "compute_target_analysis ties outs (effective_targets (Some targets)) num_sims = Inr analysis"
    and run: "run_full_simulation ties env opps num_sims horizon_days (Some targets) =
       Inr (\<lparr>summary_statistics = stats,
              target_analysis = analysis,
              histogram_buckets = hist,
              metadata = run_metadata ties env num_sims horizon_days (int (length included))
                           (int (length opps) - int (length included))\<rparr>, g')"
    using run_full_simulation_ok [OF assms n, of opps ties "Some targets"] by blast
  have an: "analysis = map (analysis_record ties outs num_sims) (sort targets)"
    using ta ts n by (simp add: effective_targets_def compute_target_analysis_eq)
  have nonneg: "\<forall>x \<in> set outs. 0 \<le> x"
    using run_monte_carlo_nonneg [OF _ mc] am sub by blast
  have tg: "map target analysis = map (\<lambda>t. py_round ties t 2) (sort targets)"
    by (simp add: an analysis_record_def)
  have pr: "TargetAnalysis.probability (analysis ! i) = 1"
    if i: "i < length targets" and le: "sort targets ! i \<le> 0" for i
  proof -
    have "\<forall>x \<in> set outs. sort targets ! i \<le> x" using nonneg le by force
    then have "TargetAnalysis.probability (analysis_record ties outs num_sims (sort targets ! i)) = 1"
      by (rule analysis_record_certain [OF _ n len])
    then show ?thesis using i by (simp add: an)
  qed
  show "\<exists>resp g'.
               run_full_simulation ties env opps num_sims horizon_days (Some targets) = Inr (resp, g') \<and>
               map target (target_analysis resp) = map (\<lambda>t. py_round ties t 2) (sort targets) \<and>
               (\<forall>i < length targets.
                  sort targets ! i \<le> 0 \<longrightarrow>
                    TargetAnalysis.probability (target_analysis resp ! i) = 1)"
    using run tg pr by simp
next
  show "run_full_simulation ties env opps 0 horizon_days revenue_targets = Inl EmptyArrayError"
    by (rule run_full_simulation_zero [OF assms])
next
  assume "num_sims < 0"
  then show "run_full_simulation ties env opps num_sims horizon_days revenue_targets = Inl ValueError"
    by (rule run_full_simulation_negative [OF assms])
qed

text \<open>
  Claim C10. Whenever the horizon filter returns (that is, for every optional horizon
  whose window end is a calendar date), the included list is a subsequence of the input,
  in the input's order, and the excluded count is the input length minus the included
  length. Whenever the orchestrator returns a result (it does for every such horizon and
  every positive trial count), its metadata satisfy
  \<open>opportunities_included + opportunities_filtered_out = len(opportunities)\<close>.
\<close>

theorem filter_subsequence_and_metadata_counts:
  "(horizon_in_calendar today horizon_days \<longrightarrow>
      (\<exists>included excluded_count.
          filter_opportunities_by_horizon today opps horizon_days = Inr (included, excluded_count) \<and>
          subseq included opps \<and>
          excluded_count = int (length opps) - int (length included))) \<and>
   (horizon_in_calendar (current_date env) horizon_days \<and> 0 < num_sims \<longrightarrow>
      (\<exists>resp g'.
          run_full_simulation ties env opps num_sims horizon_days revenue_targets = Inr (resp, g') \<and>
          opportunities_included (metadata resp) + opportunities_filtered_out (metadata resp)
            = int (length opps))) \<and>
   (\<forall>resp g'.
      run_full_simulation ties env opps num_sims horizon_days revenue_targets = Inr (resp, g') \<longrightarrow>
        opportunities_included (metadata resp) + opportunities_filtered_out (metadata resp)
          = int (length opps))"
proof (intro conjI impI allI)
  assume "horizon_in_calendar today horizon_days"
  then show "\<exists>included excluded_count.
          filter_opportunities_by_horizon today opps horizon_days = Inr (included, excluded_count) \<and>
          subseq included opps \<and>
          excluded_count = int (length opps) - int (length included)"
    using filter_by_horizon_total [of today horizon_days opps] by blast
next
  assume "horizon_in_calendar (current_date env) horizon_days \<and> 0 < num_sims"
  then have ok: "horizon_in_calendar (current_date env) horizon_days" and n: "0 < num_sims"
    by simp_all
  obtain included :: "Opportunity list" and stats analysis hist g' where
    "run_full_simulation ties env opps num_sims horizon_days revenue_targets =
       Inr (\<lparr>summary_statistics = stats,
              target_analysis = analysis,
              histogram_buckets = hist,
              metadata = run_metadata ties env num_sims horizon_days (int (length included))
                           (int (length opps) - int (length included))\<rparr>, g')"
    using run_full_simulation_ok [OF ok n, of opps ties revenue_targets] by blast
  then show "\<exists>resp g'.
          run_full_simulation ties env opps num_sims horizon_days revenue_targets = Inr (resp, g') \<and>
          opportunities_included (metadata resp) + opportunities_filtered_out (metadata resp)
            = int (length opps)"
    by (simp add: run_metadata_def)
next
  fix resp g'
  assume run: "run_full_simulation ties env opps num_sims horizon_days revenue_targets = Inr (resp, g')"
  have ok: "horizon_in_calendar (current_date env) horizon_days"
    using run run_full_simulation_overflow [of env horizon_days ties opps num_sims revenue_targets]
    by auto
  have n: "0 < num_sims"
  proof (rule ccontr)
    assume "\<not> 0 < num_sims"
    then consider "num_sims < 0" | "num_sims = 0" by linarith
    then show False
    proof cases
      case 1
      then show False using run run_full_simulation_negative [OF ok] by simp
    next
      case 2
      then show False using run run_full_simulation_zero [OF ok] by simp
    qed
  qed
  obtain included :: "Opportunity list" and stats analysis hist g'' where
    "run_full_simulation ties env opps num_sims horizon_days revenue_targets =
       Inr (\<lparr>summary_statistics = stats,
              target_analysis = analysis,
              histogram_buckets = hist,
              metadata = run_metadata ties env num_sims horizon_days (int (length included))
                           (int (length opps) - int (length included))\<rparr>, g'')"
    using run_full_simulation_ok [OF ok n, of opps ties revenue_targets] by blast
  then show "opportunities_included (metadata resp) + opportunities_filtered_out (metadata resp)
          = int (length opps)"
    using run by (auto simp: run_metadata_def)
qed

lemma run_full_simulation_target_analysis:
  assumes "horizon_in_calendar (current_date env) horizon_days" "0 < num_sims"
    and "filter_opportunities_by_horizon (current_date env) opps horizon_days
           = Inr (included, excluded_count)"
    and "run_monte_carlo included num_sims (generator env) = Inr (outs, g')"
  shows "map_sum id (target_analysis \<circ> fst)
           (run_full_simulation ties env opps num_sims horizon_days revenue_targets)
         = compute_target_analysis ties outs (effective_targets revenue_targets) num_sims"
proof -
  obtain inc2 outs2 g2 stats analysis hist where
    f: "filter_opportunities_by_horizon (current_date env) opps horizon_days =
          Inr (inc2, int (length opps) - int (length inc2))"
    and mc: "run_monte_carlo inc2 num_sims (generator env) = Inr (outs2, g2)"
    and ta: "compute_target_analysis ties outs2 (effective_targets revenue_targets) num_sims
               = Inr analysis"
    and run: "run_full_simulation ties env opps num_sims horizon_days revenue_targets =
       Inr (\<lparr>summary_statistics = stats,
              target_analysis = analysis,
              histogram_buckets = hist,
              metadata = run_metadata ties env num_sims horizon_days (int (length inc2))
                           (int (length opps) - int (length inc2))\<rparr>, g2)"
    using run_full_simulation_ok [OF assms(1,2), of opps ties revenue_targets] by blast
  have "inc2 = included" using f assms(3) by simp
  then have "outs2 = outs" using mc assms(4) by simp
  then show ?thesis using run ta by simp
qed

text \<open>
  A direct call with the target \<open>-5\<close>: one event, one trial, the draw 0.5 against the win
  probability 0.5 (lost, outcome 0).
\<close>

lemma negative_target_example_outcomes:
  "run_monte_carlo
     [\<lparr>name = ''Deal A'', amount = 1000000, probability = 1 / 2, close_date = 739954\<rparr>] 1
     \<lparr>draws = (\<lambda>k. 1 / 2), consumed = 0\<rparr>
   = Inr ([0], \<lparr>draws = (\<lambda>k. 1 / 2), consumed = 1\<rparr>)"
  by (simp add: run_monte_carlo_def np_random_uniform_def won_row_def revenue_row_def)

lemma negative_target_example_analysis:
  "compute_target_analysis ties [0] [- 5] 1 =
     Inr [\<lparr>target = - 5, probability = 1, probability_pct = ''100.0%''\<rparr>]"
  by code_simp

text \<open>
  The call returns a result, and its analysis of the target \<open>-5\<close> is a hit probability of
  1: no validation failure is signalled. (No value rounded here is a tie.)
\<close>

theorem non_positive_target_counterexample:
  "\<forall>ties.
     map_sum id (target_analysis \<circ> fst)
       (run_full_simulation ties
          \<lparr>current_date = 739924, perf_counter_start = 0, perf_counter_end = 1 / 1000,
           utc_now = 0, generator = \<lparr>draws = (\<lambda>k. 1 / 2), consumed = 0\<rparr>\<rparr>
          [\<lparr>name = ''Deal A'', amount = 1000000, probability = 1 / 2, close_date = 739954\<rparr>]
          1 None (Some [- 5]))
     = Inr [\<lparr>target = - 5, probability = 1, probability_pct = ''100.0%''\<rparr>]"
proof
  fix ties
  let ?env = "\<lparr>current_date = 739924, perf_counter_start = 0, perf_counter_end = 1 / 1000,
         utc_now = 0, generator = \<lparr>draws = (\<lambda>k. 1 / 2), consumed = 0\<rparr>\<rparr>"
  let ?opps = "[\<lparr>name = ''Deal A'', amount = 1000000, probability = 1 / 2, close_date = 739954\<rparr>]"
  have ok: "horizon_in_calendar (current_date ?env) None"
    by (simp add: horizon_in_calendar_def)
  have n: "(0::int) < 1" by simp
  have f: "filter_opportunities_by_horizon (current_date ?env) ?opps None = Inr (?opps, 0)"
    by (rule filter_by_horizon_None)
  have mc: "run_monte_carlo ?opps 1 (generator ?env)
              = Inr ([0], \<lparr>draws = (\<lambda>k. 1 / 2), consumed = 1\<rparr>)"
    using negative_target_example_outcomes by simp
  have "map_sum id (target_analysis \<circ> fst) (run_full_simulation ties ?env ?opps 1 None (Some [- 5]))
          = compute_target_analysis ties [0] (effective_targets (Some [- 5])) 1"
    by (rule run_full_simulation_target_analysis [OF ok n f mc])
  then show "map_sum id (target_analysis \<circ> fst) (run_full_simulation ties ?env ?opps 1 None (Some [- 5]))
          = Inr [\<lparr>target = - 5, probability = 1, probability_pct = ''100.0%''\<rparr>]"
    by (simp add: effective_targets_def negative_target_example_analysis)
qed

theorem core_performs_no_validation_witness:
  "horizon_in_calendar
     (current_date \<lparr>current_date = 739924, perf_counter_start = 0, perf_counter_end = 1 / 1000,
         utc_now = 0, generator = \<lparr>draws = (\<lambda>k. 1 / 2), consumed = 0\<rparr>\<rparr>) None \<and>
   (0::int) < 1 \<and> ([- 5] :: real list) \<noteq> [] \<and>
   (0::real) \<le> amount \<lparr>name = ''Deal A'', amount = 1000000, probability = 1 / 2, close_date = 739954\<rparr> \<and>
   (\<exists>resp g'.
      run_full_simulation ties_up
        \<lparr>current_date = 739924, perf_counter_start = 0, perf_counter_end = 1 / 1000,
         utc_now = 0, generator = \<lparr>draws = (\<lambda>k. 1 / 2), consumed = 0\<rparr>\<rparr>
        [\<lparr>name = ''Deal A'', amount = 1000000, probability = 1 / 2, close_date = 739954\<rparr>]
        1 None (Some [- 5]) = Inr (resp, g') \<and>
      map target (target_analysis resp) = [- 5] \<and>
      TargetAnalysis.probability (target_analysis resp ! 0) = 1) \<and>
   run_full_simulation ties_up
        \<lparr>current_date = 739924, perf_counter_start = 0, perf_counter_end = 1 / 1000,
         utc_now = 0, generator = \<lparr>draws = (\<lambda>k. 1 / 2), consumed = 0\<rparr>\<rparr>
        [\<lparr>name = ''Deal A'', amount = 1000000, probability = 1 / 2, close_date = 739954\<rparr>]
        0 None (Some [- 5]) = Inl EmptyArrayError"
proof -
  let ?env = "\<lparr>current_date = 739924, perf_counter_start = 0, perf_counter_end = 1 / 1000,
         utc_now = 0, generator = \<lparr>draws = (\<lambda>k. 1 / 2), consumed = 0\<rparr>\<rparr>"
  let ?opps = "[\<lparr>name = ''Deal A'', amount = 1000000, probability = 1 / 2, close_date = 739954\<rparr>]"
  have ok: "horizon_in_calendar (current_date ?env) None"
    by (simp add: horizon_in_calendar_def)
  have hyp: "(0::int) < 1 \<and> ([- 5] :: real list) \<noteq> [] \<and> (\<forall>opp \<in> set ?opps. 0 \<le> amount opp)"
    by simp
  have r2: "py_round ties_up (- 5) 2 = - 5"
    by (simp add: py_round_def round_nearest_def)
  note inst = core_performs_no_validation
                [where env = ?env and horizon_days = None and num_sims = 1 and targets = "[- 5]"
                   and opps = ?opps and ties = ties_up and revenue_targets = "Some [- 5]", OF ok]
  from inst hyp obtain resp g' where
    run: "run_full_simulation ties_up ?env ?opps 1 None (Some [- 5]) = Inr (resp, g')"
    and tg: "map target (target_analysis resp) = map (\<lambda>t. py_round ties_up t 2) (sort [- 5])"
    and pr: "\<forall>i < length [- 5 :: real].
                sort [- 5 :: real] ! i \<le> 0 \<longrightarrow>
                  TargetAnalysis.probability (target_analysis resp ! i) = 1"
    by blast
  have tg': "map target (target_analysis resp) = [- 5]" using tg r2 by simp
  have pr': "TargetAnalysis.probability (target_analysis resp ! 0) = 1" using pr by simp
  have zero: "run_full_simulation ties_up ?env ?opps 0 None (Some [- 5]) = Inl EmptyArrayError"
    using inst by blast
  show ?thesis using ok run tg' pr' zero by auto
qed

lemma horizon_example_filter:
  "filter_opportunities_by_horizon 739924
     [\<lparr>name = ''Deal A'', amount = 1000000, probability = 9/10, close_date = 739954\<rparr>,
      \<lparr>name = ''Deal B'', amount = 500000, probability = 1/2, close_date = 739984\<rparr>,
      \<lparr>name = ''Past'', amount = 100000, probability = 1/2, close_date = 739914\<rparr>]
     (Some 45) =
   Inr ([\<lparr>name = ''Deal A'', amount = 1000000, probability = 9/10, close_date = 739954\<rparr>], 2)"
  by (simp add: filter_opportunities_by_horizon_def date_plus_days_def timedelta_max_days_def
        date_max_def)

theorem filter_subsequence_and_metadata_counts_witness:
  "horizon_in_calendar 739924 (Some 45) \<and> (0::int) < 1 \<and>
   filter_opportunities_by_horizon 739924
     [\<lparr>name = ''Deal A'', amount = 1000000, probability = 9/10, close_date = 739954\<rparr>,
      \<lparr>name = ''Deal B'', amount = 500000, probability = 1/2, close_date = 739984\<rparr>,
      \<lparr>name = ''Past'', amount = 100000, probability = 1/2, close_date = 739914\<rparr>]
     (Some 45) =
   Inr ([\<lparr>name = ''Deal A'', amount = 1000000, probability = 9/10, close_date = 739954\<rparr>], 2) \<and>
   (\<exists>resp g'.
      run_full_simulation ties_up
        \<lparr>current_date = 739924, perf_counter_start = 0, perf_counter_end = 1 / 1000,
         utc_now = 0, generator = \<lparr>draws = (\<lambda>k. 1 / 2), consumed = 0\<rparr>\<rparr>
        [\<lparr>name = ''Deal A'', amount = 1000000, probability = 9/10, close_date = 739954\<rparr>,
         \<lparr>name = ''Deal B'', amount = 500000, probability = 1/2, close_date = 739984\<rparr>,
         \<lparr>name = ''Past'', amount = 100000, probability = 1/2, close_date = 739914\<rparr>]
        1 (Some 45) None = Inr (resp, g') \<and>
      opportunities_included (metadata resp) + opportunities_filtered_out (metadata resp) = 3)"
proof -
  let ?env = "\<lparr>current_date = 739924, perf_counter_start = 0, perf_counter_end = 1 / 1000,
         utc_now = 0, generator = \<lparr>draws = (\<lambda>k. 1 / 2), consumed = 0\<rparr>\<rparr>"
  let ?opps = "[\<lparr>name = ''Deal A'', amount = 1000000, probability = 9/10, close_date = 739954\<rparr>,
         \<lparr>name = ''Deal B'', amount = 500000, probability = 1/2, close_date = 739984\<rparr>,
         \<lparr>name = ''Past'', amount = 100000, probability = 1/2, close_date = 739914\<rparr>]"
  have ok: "horizon_in_calendar 739924 (Some 45)"
    by (simp add: horizon_in_calendar_def timedelta_max_days_def date_max_def)
  then have ok': "horizon_in_calendar (current_date ?env) (Some 45) \<and> (0::int) < 1" by simp
  note inst = filter_subsequence_and_metadata_counts
                [where today = 739924 and horizon_days = "Some 45" and opps = ?opps and env = ?env
                   and ties = ties_up and num_sims = 1 and revenue_targets = None]
  from inst ok' obtain resp g' where
    "run_full_simulation ties_up ?env ?opps 1 (Some 45) None = Inr (resp, g')"
    "opportunities_included (metadata resp) + opportunities_filtered_out (metadata resp)
       = int (length ?opps)"
    by blast
  then have "\<exists>resp g'. run_full_simulation ties_up ?env ?opps 1 (Some 45) None = Inr (resp, g') \<and>
      opportunities_included (metadata resp) + opportunities_filtered_out (metadata resp) = 3"
    by auto
  then show ?thesis using ok horizon_example_filter by simp
qed

end
